theory Spec2Isabelle
  imports Main "HOL-Library.AList" "HOL-Library.Sublist"
begin

section \<open>Exceptions\<close>

text \<open>
  A Python exception is modelled by its class name and the text that \<^verbatim>\<open>str(e)\<close>
  yields. Only instances of \<^verbatim>\<open>Exception\<close> are modelled, the ones a clause
  \<^verbatim>\<open>except Exception\<close> catches. For the errors of the operating system the text is
  abridged to the path concerned.
\<close>

datatype exn = Exn (exn_class: string) (exn_text: string)

definition str :: "exn \<Rightarrow> string" where
  "str e = exn_text e"

section \<open>Paths (pathlib, POSIX flavour)\<close>

datatype path = Path (is_absolute: bool) (parts: "string list")

fun split_on :: "char \<Rightarrow> string \<Rightarrow> string list" where
  "split_on c [] = [[]]"
| "split_on c (x # xs) =
     (if x = c then [] # split_on c xs
      else (case split_on c xs of
              [] \<Rightarrow> [[x]]
            | y # ys \<Rightarrow> (x # y) # ys))"

text \<open>
  \<^verbatim>\<open>Path(s)\<close>: the string is split at the slashes, empty components and
  \<^verbatim>\<open>.\<close> components are dropped (\<^verbatim>\<open>..\<close> is kept), and a leading slash makes
  the path absolute. (The root \<^verbatim>\<open>//\<close> that POSIX keeps for exactly two leading
  slashes is not told apart from \<^verbatim>\<open>/\<close>.)
\<close>

definition parse_path :: "string \<Rightarrow> path" where
  "parse_path s =
     Path (take 1 s = ''/'')
          (filter (\<lambda>c. c \<noteq> [] \<and> c \<noteq> ''.'') (split_on CHR ''/'' s))"

text \<open>\<^verbatim>\<open>p / s\<close>: an absolute right operand replaces the left one.\<close>

definition joinpath :: "path \<Rightarrow> string \<Rightarrow> path" where
  "joinpath p s =
     (let q = parse_path s
      in if is_absolute q then q else Path (is_absolute p) (parts p @ parts q))"

fun intercalate :: "string \<Rightarrow> string list \<Rightarrow> string" where
  "intercalate sep [] = []"
| "intercalate sep [x] = x"
| "intercalate sep (x # y # ys) = x @ sep @ intercalate sep (y # ys)"

text \<open>\<^verbatim>\<open>str(p)\<close>\<close>

definition path_str :: "path \<Rightarrow> string" where
  "path_str p =
     (if is_absolute p then ''/'' @ intercalate ''/'' (parts p)
      else if parts p = [] then ''.''
      else intercalate ''/'' (parts p))"

text \<open>\<^verbatim>\<open>p.name\<close>, \<^verbatim>\<open>p.parent\<close>\<close>

definition name :: "path \<Rightarrow> string" where
  "name p = (if parts p = [] then [] else last (parts p))"

definition parent :: "path \<Rightarrow> path" where
  "parent p = Path (is_absolute p) (butlast (parts p))"

text \<open>\<^verbatim>\<open>s.rfind(c)\<close>, with \<open>None\<close> for Python's \<^verbatim>\<open>-1\<close>\<close>

fun rfind :: "char \<Rightarrow> string \<Rightarrow> nat option" where
  "rfind c [] = None"
| "rfind c (x # xs) =
     (case rfind c xs of
        Some i \<Rightarrow> Some (Suc i)
      | None \<Rightarrow> if x = c then Some 0 else None)"

text \<open>
  \<^verbatim>\<open>p.suffix\<close>, on the name: with \<^verbatim>\<open>i = name.rfind('.')\<close>, the suffix is
  \<^verbatim>\<open>name[i:]\<close> when \<^verbatim>\<open>0 < i < len(name) - 1\<close> and empty otherwise.
\<close>

definition suffix_of :: "string \<Rightarrow> string" where
  "suffix_of n =
     (case rfind CHR ''.'' n of
        None \<Rightarrow> []
      | Some i \<Rightarrow> if 0 < i \<and> i + 1 < length n then drop i n else [])"

definition suffix_path :: "path \<Rightarrow> string" where
  "suffix_path p = suffix_of (name p)"

text \<open>\<open>under d q\<close>: \<open>q\<close> is \<open>d\<close> or lies below it.\<close>

definition under :: "path \<Rightarrow> path \<Rightarrow> bool" where
  "under d q \<longleftrightarrow> is_absolute d = is_absolute q \<and> prefix (parts d) (parts q)"

definition child_of :: "path \<Rightarrow> path \<Rightarrow> bool" where
  "child_of d q \<longleftrightarrow> parts q \<noteq> [] \<and> parent q = d"

section \<open>The world outside the program\<close>

datatype node = File string | Dir

text \<open>
  The file system is a finite map from paths to nodes, kept as an association list
  (the first binding of a key counts).
\<close>

type_synonym filesystem = "(path \<times> node) list"

record completed_process =
  returncode :: int
  stdout :: string
  stderr :: string

datatype download = Downloaded string | Download_Failed exn "string option"

text \<open>
  What \<^verbatim>\<open>subprocess.run\<close> meets. Either the child cannot be launched; or it runs,
  leaves a file system behind and exits with a code, and then its captured output either
  decodes to the texts of standard output and standard error, or reading it raises (a
  byte that is not UTF-8 raises \<^verbatim>\<open>UnicodeDecodeError\<close> after the child has exited).
\<close>

datatype run_outcome =
    Not_Launched exn
  | Terminated int "exn + string \<times> string" filesystem

datatype event =
    Whoami "string option"
  | Urlopen string
  | Urlretrieve string path
  | Subprocess_Run "string list" path "(string \<times> string) list"
  | Upload_Folder string string string string

text \<open>
  The state the program reads and changes (\<open>fs\<close>, \<open>trace\<close>, \<open>logs\<close>), and the
  behaviour of its collaborators, which the program does not decide: the Streamlit
  secrets and session state, the environment, the identity service (\<^verbatim>\<open>whoami\<close>),
  the archive source (\<^verbatim>\<open>urlopen\<close>, \<^verbatim>\<open>urlretrieve\<close>), \<^verbatim>\<open>tarfile\<close>,
  \<^verbatim>\<open>tempfile\<close>, the conversion subprocess and the hub's upload API.
  \<open>secrets\<close> is the parsed secrets file, or the error every access to
  \<^verbatim>\<open>st.secrets\<close> raises when it cannot be loaded
  (\<^verbatim>\<open>StreamlitSecretNotFoundError\<close> when there is none).
  \<open>protected\<close> lists the entries that the operating system refuses to unlink, remove
  or rename, and the directories in which it refuses to create an entry
  (\<^verbatim>\<open>PermissionError\<close>); other faults of the operating system (a full disk, an I/O
  error) are not modelled. \<open>trace\<close> records every call that leaves the process, in
  order.
\<close>

record world =
  fs :: filesystem
  protected :: "path list"
  trace :: "event list"
  logs :: "(string \<times> string) list"
  secrets :: "exn + (string \<rightharpoonup> string)"
  session_state :: "string \<rightharpoonup> string"
  environ :: "string \<rightharpoonup> string"
  sys_executable :: string
  whoami_reply :: "string option \<Rightarrow> exn + (string \<rightharpoonup> string)"
  urlopen_reply :: "string \<Rightarrow> exn + int option"
  urlretrieve_reply :: "string \<Rightarrow> download"
  untar_reply :: "string \<Rightarrow> exn + (string list \<times> node) list"
  mkdtemp_reply :: "exn + path"
  subprocess_reply :: "string list \<Rightarrow> path \<Rightarrow> filesystem \<Rightarrow> run_outcome"
  upload_reply ::
    "string \<Rightarrow> string \<Rightarrow> string \<Rightarrow> string \<Rightarrow> filesystem \<Rightarrow> exn option"

text \<open>
  A call either raises or returns a value, and leaves a world behind in both cases.
\<close>

type_synonym 'a result = "(exn + 'a) \<times> world"

definition bind :: "'a result \<Rightarrow> ('a \<Rightarrow> world \<Rightarrow> 'b result) \<Rightarrow> 'b result" where
  "bind r f = (case r of (Inl e, w) \<Rightarrow> (Inl e, w) | (Inr x, w) \<Rightarrow> f x w)"

text \<open>
  \<^verbatim>\<open>try: ... finally: ...\<close>: the cleanup runs on the world the body left; when it
  raises, its exception replaces the outcome of the body.
\<close>

definition try_finally :: "'a result \<Rightarrow> (world \<Rightarrow> unit result) \<Rightarrow> 'a result" where
  "try_finally r cleanup =
     (case r of (res, w) \<Rightarrow>
        (case cleanup w of (Inl e, w') \<Rightarrow> (Inl e, w') | (Inr _, w') \<Rightarrow> (res, w')))"

definition raise :: "exn \<Rightarrow> world \<Rightarrow> 'a result" where
  "raise e w = (Inl e, w)"

definition return :: "'a \<Rightarrow> world \<Rightarrow> 'a result" where
  "return x w = (Inr x, w)"

section \<open>File-system operations (POSIX)\<close>

definition exists_path :: "filesystem \<Rightarrow> path \<Rightarrow> bool" where
  "exists_path f p \<longleftrightarrow> map_of f p \<noteq> None"

definition is_file :: "filesystem \<Rightarrow> path \<Rightarrow> bool" where
  "is_file f p \<longleftrightarrow> (case map_of f p of Some (File _) \<Rightarrow> True | _ \<Rightarrow> False)"

definition is_dir :: "filesystem \<Rightarrow> path \<Rightarrow> bool" where
  "is_dir f p \<longleftrightarrow> map_of f p = Some Dir"

text \<open>\<^verbatim>\<open>os.mkdir(p)\<close>\<close>

definition os_mkdir :: "path \<Rightarrow> world \<Rightarrow> unit result" where
  "os_mkdir p w =
     (if exists_path (fs w) p then raise (Exn ''FileExistsError'' (path_str p)) w
      else if \<not> exists_path (fs w) (parent p)
        then raise (Exn ''FileNotFoundError'' (path_str p)) w
      else if \<not> is_dir (fs w) (parent p)
        then raise (Exn ''NotADirectoryError'' (path_str p)) w
      else if parent p \<in> set (protected w)
        then raise (Exn ''PermissionError'' (path_str p)) w
      else return () (w\<lparr>fs := AList.update p Dir (fs w)\<rparr>))"

text \<open>
  \<^verbatim>\<open>p.mkdir(exist_ok=...)\<close>, without \<^verbatim>\<open>parents\<close>: a missing parent is
  raised as it is; any other error is raised unless \<^verbatim>\<open>exist_ok\<close> holds and the
  path is a directory.
\<close>

definition mkdir :: "path \<Rightarrow> bool \<Rightarrow> world \<Rightarrow> unit result" where
  "mkdir p exist_ok w =
     (case os_mkdir p w of
        (Inl e, w') \<Rightarrow>
          (if exn_class e = ''FileNotFoundError'' then (Inl e, w')
           else if \<not> exist_ok \<or> \<not> is_dir (fs w') p then (Inl e, w')
           else (Inr (), w'))
      | (Inr u, w') \<Rightarrow> (Inr u, w'))"

text \<open>
  \<^verbatim>\<open>p.iterdir()\<close>: the children of \<open>p\<close>, each once, as a snapshot taken when the
  iteration starts.
\<close>

definition iterdir :: "path \<Rightarrow> world \<Rightarrow> path list result" where
  "iterdir p w =
     (if is_dir (fs w) p
        then return (remdups (filter (child_of p) (map fst (fs w)))) w
      else if exists_path (fs w) p
        then raise (Exn ''NotADirectoryError'' (path_str p)) w
      else raise (Exn ''FileNotFoundError'' (path_str p)) w)"

definition reroot :: "path \<Rightarrow> path \<Rightarrow> path \<Rightarrow> path" where
  "reroot src dst q = Path (is_absolute dst) (parts dst @ drop (length (parts src)) (parts q))"

text \<open>
  \<^verbatim>\<open>src.rename(dst)\<close>, that is \<^verbatim>\<open>os.rename\<close>: a file replaces a file at the
  target, a directory moves with everything below it and replaces only an empty
  directory.
\<close>

definition os_rename :: "path \<Rightarrow> path \<Rightarrow> world \<Rightarrow> unit result" where
  "os_rename src dst w =
     (case map_of (fs w) src of
        None \<Rightarrow> raise (Exn ''FileNotFoundError'' (path_str src)) w
      | Some n \<Rightarrow>
          if \<not> is_dir (fs w) (parent dst)
            then raise (Exn ''FileNotFoundError'' (path_str dst)) w
          else if src \<in> set (protected w)
                  \<or> (exists_path (fs w) dst \<and> dst \<in> set (protected w))
                  \<or> (\<not> exists_path (fs w) dst \<and> parent dst \<in> set (protected w))
            then raise (Exn ''PermissionError'' (path_str src)) w
          else if src = dst then return () w
          else (case n of
                  File c \<Rightarrow>
                    if is_dir (fs w) dst
                      then raise (Exn ''IsADirectoryError'' (path_str dst)) w
                    else return ()
                           (w\<lparr>fs := AList.update dst (File c) (AList.delete src (fs w))\<rparr>)
                | Dir \<Rightarrow>
                    if is_file (fs w) dst
                      then raise (Exn ''NotADirectoryError'' (path_str dst)) w
                    else if under src dst
                      then raise (Exn ''OSError'' (path_str dst)) w
                    else if \<exists>q \<in> set (map fst (fs w)). child_of dst q
                      then raise (Exn ''OSError'' (path_str dst)) w
                    else return ()
                           (w\<lparr>fs := map (\<lambda>(q, m). (if under src q then reroot src dst q else q, m))
                                       (AList.delete dst (fs w))\<rparr>)))"

text \<open>\<^verbatim>\<open>os.unlink(p)\<close> and \<^verbatim>\<open>p.unlink(missing_ok=...)\<close>\<close>

definition os_unlink :: "path \<Rightarrow> world \<Rightarrow> unit result" where
  "os_unlink p w =
     (case map_of (fs w) p of
        None \<Rightarrow> raise (Exn ''FileNotFoundError'' (path_str p)) w
      | Some Dir \<Rightarrow> raise (Exn ''IsADirectoryError'' (path_str p)) w
      | Some (File c) \<Rightarrow>
          if p \<in> set (protected w) then raise (Exn ''PermissionError'' (path_str p)) w
          else return () (w\<lparr>fs := AList.delete p (fs w)\<rparr>))"

definition unlink :: "path \<Rightarrow> bool \<Rightarrow> world \<Rightarrow> unit result" where
  "unlink p missing_ok w =
     (case os_unlink p w of
        (Inl e, w') \<Rightarrow>
          (if missing_ok \<and> exn_class e = ''FileNotFoundError'' then (Inr (), w')
           else (Inl e, w'))
      | (Inr u, w') \<Rightarrow> (Inr u, w'))"

text \<open>
  \<^verbatim>\<open>shutil.rmtree(p, ignore_errors=...)\<close>. An entry below \<open>p\<close> is removed when
  neither it nor anything below it is protected; what cannot be removed stays, with
  the directories above it. With \<^verbatim>\<open>ignore_errors\<close> no error is raised.
\<close>

definition removable :: "world \<Rightarrow> path \<Rightarrow> bool" where
  "removable w q \<longleftrightarrow>
     (\<forall>r \<in> set (protected w). exists_path (fs w) r \<longrightarrow> \<not> under q r)"

definition rmtree :: "path \<Rightarrow> bool \<Rightarrow> world \<Rightarrow> unit result" where
  "rmtree p ignore_errors w =
     (let r = (case map_of (fs w) p of
                 None \<Rightarrow> raise (Exn ''FileNotFoundError'' (path_str p)) w
               | Some (File c) \<Rightarrow> raise (Exn ''NotADirectoryError'' (path_str p)) w
               | Some Dir \<Rightarrow>
                   (let w' = w\<lparr>fs := filter (\<lambda>(q, m). \<not> (under p q \<and> removable w q)) (fs w)\<rparr>
                    in if exists_path (fs w') p
                         then raise (Exn ''PermissionError'' (path_str p)) w'
                       else return () w'))
      in if ignore_errors then (Inr (), snd r) else r)"

text \<open>\<^verbatim>\<open>open(p, "wb")\<close> followed by writing \<open>c\<close>\<close>

definition write_file :: "path \<Rightarrow> string \<Rightarrow> world \<Rightarrow> unit result" where
  "write_file p c w =
     (if is_dir (fs w) p then raise (Exn ''IsADirectoryError'' (path_str p)) w
      else if \<not> is_dir (fs w) (parent p)
        then raise (Exn ''FileNotFoundError'' (path_str p)) w
      else if \<not> exists_path (fs w) p \<and> parent p \<in> set (protected w)
        then raise (Exn ''PermissionError'' (path_str p)) w
      else return () (w\<lparr>fs := AList.update p (File c) (fs w)\<rparr>))"

text \<open>
  \<^verbatim>\<open>urlretrieve(url, p)\<close>: a failed download may leave what it had written.
\<close>

definition urlretrieve :: "string \<Rightarrow> path \<Rightarrow> world \<Rightarrow> unit result" where
  "urlretrieve url p w =
     (let w' = w\<lparr>trace := trace w @ [Urlretrieve url p]\<rparr>
      in case urlretrieve_reply w url of
           Downloaded c \<Rightarrow> write_file p c w'
         | Download_Failed e None \<Rightarrow> raise e w'
         | Download_Failed e (Some c) \<Rightarrow> bind (write_file p c w') (\<lambda>_. raise e))"

text \<open>
  \<^verbatim>\<open>tarfile.open(archive, "r:gz")\<close> and \<^verbatim>\<open>tar.extractall(d)\<close>: the members
  are written below \<open>d\<close>.
\<close>

definition tar_extractall :: "path \<Rightarrow> path \<Rightarrow> world \<Rightarrow> unit result" where
  "tar_extractall archive d w =
     (case map_of (fs w) archive of
        None \<Rightarrow> raise (Exn ''FileNotFoundError'' (path_str archive)) w
      | Some Dir \<Rightarrow> raise (Exn ''IsADirectoryError'' (path_str archive)) w
      | Some (File c) \<Rightarrow>
          (case untar_reply w c of
             Inl e \<Rightarrow> raise e w
           | Inr members \<Rightarrow>
               return ()
                 (w\<lparr>fs := foldl (\<lambda>f (rel, n). AList.update (Path (is_absolute d) (parts d @ rel)) n f)
                             (fs w) members\<rparr>)))"

text \<open>
  \<^verbatim>\<open>tempfile.TemporaryDirectory()\<close>: entering creates the directory the system
  names, leaving removes it with everything below it.
\<close>

definition temporary_directory_enter :: "world \<Rightarrow> path result" where
  "temporary_directory_enter w =
     (case mkdtemp_reply w of
        Inl e \<Rightarrow> raise e w
      | Inr d \<Rightarrow> bind (os_mkdir d w) (\<lambda>_. return d))"

definition temporary_directory_exit :: "path \<Rightarrow> world \<Rightarrow> unit result" where
  "temporary_directory_exit d w =
     (if exists_path (fs w) d then rmtree d False w else return () w)"

text \<open>Python's truth value of an optional string: \<^verbatim>\<open>None\<close> and \<^verbatim>\<open>""\<close> are false.\<close>

definition truthy :: "string option \<Rightarrow> bool" where
  "truthy t \<longleftrightarrow> (case t of None \<Rightarrow> False | Some s \<Rightarrow> s \<noteq> [])"

definition logger :: "string \<Rightarrow> string \<Rightarrow> world \<Rightarrow> world" where
  "logger level msg w = w\<lparr>logs := logs w @ [(level, msg)]\<rparr>"

section \<open>Configuration\<close>

record Config =
  hf_token :: string
  hf_username :: string
  transformers_version :: string
  hf_base_url :: string
  transformers_base_url :: string
  repo_path :: path

text \<open>The dataclass constructor with its default values.\<close>

definition make_config :: "string \<Rightarrow> string \<Rightarrow> Config" where
  "make_config tok user =
     \<lparr>hf_token = tok, hf_username = user,
      transformers_version = ''3.0.0'',
      hf_base_url = ''https://huggingface.co'',
      transformers_base_url = ''https://github.com/xenova/transformers.js/archive/refs'',
      repo_path = parse_path ''./transformers.js''\<rparr>"

text \<open>\<^verbatim>\<open>whoami(token=t)["name"]\<close>\<close>

definition whoami_name :: "string option \<Rightarrow> world \<Rightarrow> string result" where
  "whoami_name t w =
     (let w' = w\<lparr>trace := trace w @ [Whoami t]\<rparr>
      in case whoami_reply w t of
           Inl e \<Rightarrow> (Inl e, w')
         | Inr d \<Rightarrow>
             (case d ''name'' of
                None \<Rightarrow> (Inl (Exn ''KeyError'' ''name''), w')
              | Some n \<Rightarrow> (Inr n, w')))"

text \<open>\<^verbatim>\<open>st.secrets.get(k)\<close>\<close>

definition secrets_get :: "string \<Rightarrow> world \<Rightarrow> string option result" where
  "secrets_get k w = (case secrets w of Inl e \<Rightarrow> raise e w | Inr m \<Rightarrow> return (m k) w)"

definition from_env :: "world \<Rightarrow> Config result" where
  "from_env w =
     bind (secrets_get ''HF_TOKEN'' w)
       (\<lambda>system_token w0.
          let user_token = session_state w0 ''user_hf_token''
          in bind (if truthy user_token then whoami_name user_token w0
                   else if truthy (environ w0 ''SPACE_AUTHOR_NAME'')
                        then (Inr (the (environ w0 ''SPACE_AUTHOR_NAME'')), w0)
                        else whoami_name system_token w0)
               (\<lambda>hf_username w1.
                  let hf_token = (if truthy user_token then user_token else system_token)
                  in if \<not> truthy hf_token
                     then (Inl (Exn ''ValueError'' ''HF_TOKEN must be set''), w1)
                     else (Inr (make_config (the hf_token) hf_username), w1)))"

section \<open>The converter\<close>

record HfApi =
  token :: string

record ModelConverter =
  config :: Config
  api :: HfApi

definition init_converter :: "Config \<Rightarrow> ModelConverter" where
  "init_converter c = \<lparr>config = c, api = \<lparr>token = hf_token c\<rparr>\<rparr>"

subsection \<open>Reference type\<close>

text \<open>\<^verbatim>\<open>urlopen(url).getcode()\<close>\<close>

definition urlopen_getcode :: "string \<Rightarrow> world \<Rightarrow> int option result" where
  "urlopen_getcode url w = (urlopen_reply w url, w\<lparr>trace := trace w @ [Urlopen url]\<rparr>)"

definition get_ref_type :: "ModelConverter \<Rightarrow> world \<Rightarrow> string result" where
  "get_ref_type self w =
     (let url = transformers_base_url (config self) @ ''/tags/''
                  @ transformers_version (config self) @ ''.tar.gz''
      in case urlopen_getcode url w of
           (Inr code, w1) \<Rightarrow> (Inr (if code = Some 200 then ''tags'' else ''heads''), w1)
         | (Inl e, w1) \<Rightarrow>
             (Inr ''heads'',
              logger ''WARNING'' (''Failed to check tags, defaulting to heads: '' @ str e) w1))"

subsection \<open>Conversion\<close>

text \<open>
  \<^verbatim>\<open>subprocess.run(args, cwd=..., capture_output=True, text=True, env={})\<close>: it
  raises when the child cannot be launched and when reading the captured output raises;
  the child process may change the file system.
\<close>

definition subprocess_run ::
    "string list \<Rightarrow> path \<Rightarrow> (string \<times> string) list \<Rightarrow> world \<Rightarrow> completed_process result" where
  "subprocess_run args cwd env w =
     (let w' = w\<lparr>trace := trace w @ [Subprocess_Run args cwd env]\<rparr>
      in case subprocess_reply w args cwd (fs w) of
           Not_Launched e \<Rightarrow> (Inl e, w')
         | Terminated rc (Inl e) fs' \<Rightarrow> (Inl e, w'\<lparr>fs := fs'\<rparr>)
         | Terminated rc (Inr (out, err)) fs' \<Rightarrow>
             (Inr \<lparr>returncode = rc, stdout = out, stderr = err\<rparr>, w'\<lparr>fs := fs'\<rparr>))"

definition convert_model ::
    "ModelConverter \<Rightarrow> string \<Rightarrow> world \<Rightarrow> (bool \<times> string option) result" where
  "convert_model self input_model_id w =
     (case subprocess_run
             [sys_executable w, ''-m'', ''scripts.convert'', ''--quantize'',
              ''--model_id'', input_model_id]
             (repo_path (config self)) [] w of
        (Inr result, w1) \<Rightarrow>
          (if returncode result \<noteq> 0 then (Inr (False, Some (stderr result)), w1)
           else (Inr (True, Some (stderr result)), w1))
      | (Inl e, w1) \<Rightarrow> (Inr (False, Some (str e)), w1))"

subsection \<open>Bootstrap\<close>

definition extract_archive :: "ModelConverter \<Rightarrow> path \<Rightarrow> world \<Rightarrow> unit result" where
  "extract_archive self archive_path w =
     bind (temporary_directory_enter w)
       (\<lambda>tmp_dir w1.
          try_finally
            (bind (tar_extractall archive_path tmp_dir w1)
               (\<lambda>_ w2. bind (iterdir tmp_dir w2)
                  (\<lambda>entries w3.
                     case entries of
                       [] \<Rightarrow> raise (Exn ''StopIteration'' []) w3
                     | extracted_folder # _ \<Rightarrow>
                         os_rename extracted_folder (repo_path (config self)) w3)))
            (temporary_directory_exit tmp_dir))"

text \<open>The local variable \<^verbatim>\<open>archive_path\<close> of \<^verbatim>\<open>setup_repository\<close>.\<close>

definition archive_path :: "ModelConverter \<Rightarrow> path" where
  "archive_path self =
     parse_path (''./transformers_'' @ transformers_version (config self) @ ''.tar.gz'')"

definition setup_repository :: "ModelConverter \<Rightarrow> world \<Rightarrow> unit result" where
  "setup_repository self w =
     (if exists_path (fs w) (repo_path (config self)) then return () w
      else
        bind (get_ref_type self w)
          (\<lambda>ref_type w1.
             let archive_url = transformers_base_url (config self) @ ''/'' @ ref_type @ ''/''
                                 @ transformers_version (config self) @ ''.tar.gz''
             in try_finally
                  (case bind (urlretrieve archive_url (archive_path self) w1)
                          (\<lambda>_ w2. bind (extract_archive self (archive_path self) w2)
                             (\<lambda>_ w3. return ()
                                (logger ''INFO''
                                   ''Repository downloaded and extracted successfully'' w3))) of
                     (Inl e, w') \<Rightarrow>
                       (Inl (Exn ''RuntimeError'' (''Failed to setup repository: '' @ str e)), w')
                   | (Inr u, w') \<Rightarrow> (Inr u, w'))
                  (unlink (archive_path self) True)))"

subsection \<open>Upload\<close>

text \<open>\<^verbatim>\<open>self.api.upload_folder(folder_path=..., repo_id=..., path_in_repo=...)\<close>\<close>

definition upload_folder ::
    "ModelConverter \<Rightarrow> string \<Rightarrow> string \<Rightarrow> string \<Rightarrow> world \<Rightarrow> unit result" where
  "upload_folder self folder_path repo_id path_in_repo w =
     (let w' = w\<lparr>trace := trace w
                  @ [Upload_Folder (token (api self)) folder_path repo_id path_in_repo]\<rparr>
      in case upload_reply w (token (api self)) folder_path repo_id path_in_repo (fs w) of
           Some e \<Rightarrow> raise e w'
         | None \<Rightarrow> return () w')"

text \<open>
  The local variables \<^verbatim>\<open>model_folder_path\<close> and \<^verbatim>\<open>onnx_folder_path\<close> of
  \<^verbatim>\<open>upload_model\<close>.
\<close>

definition model_folder_path :: "ModelConverter \<Rightarrow> string \<Rightarrow> path" where
  "model_folder_path self input_model_id =
     joinpath (joinpath (repo_path (config self)) ''models'') input_model_id"

definition onnx_folder_path :: "ModelConverter \<Rightarrow> string \<Rightarrow> path" where
  "onnx_folder_path self input_model_id =
     joinpath (model_folder_path self input_model_id) ''onnx''"

text \<open>The loop over \<^verbatim>\<open>model_folder_path.iterdir()\<close>.\<close>

fun move_onnx_files :: "path \<Rightarrow> path list \<Rightarrow> world \<Rightarrow> unit result" where
  "move_onnx_files target [] w = return () w"
| "move_onnx_files target (file # files) w =
     (if is_file (fs w) file \<and> suffix_path file = ''.onnx''
        then bind (os_rename file (joinpath target (name file)) w)
               (\<lambda>_. move_onnx_files target files)
      else move_onnx_files target files w)"

text \<open>
  The statements of \<^verbatim>\<open>upload_model\<close> before the push: the subfolder is created
  and the files are moved.
\<close>

definition relocate_onnx_files :: "path \<Rightarrow> path \<Rightarrow> world \<Rightarrow> unit result" where
  "relocate_onnx_files model_folder onnx_folder w =
     bind (mkdir onnx_folder True w)
       (\<lambda>_ w1. bind (iterdir model_folder w1)
          (\<lambda>files. move_onnx_files onnx_folder files))"

definition upload_model :: "ModelConverter \<Rightarrow> string \<Rightarrow> world \<Rightarrow> string option result" where
  "upload_model self input_model_id w =
     try_finally
       (case bind (relocate_onnx_files (model_folder_path self input_model_id)
                     (onnx_folder_path self input_model_id) w)
               (\<lambda>_. upload_folder self (path_str (onnx_folder_path self input_model_id))
                       input_model_id ''onnx'') of
          (Inl e, w') \<Rightarrow> (Inr (Some (str e)), w')
        | (Inr u, w') \<Rightarrow> (Inr None, w'))
       (rmtree (model_folder_path self input_model_id) True)"

section \<open>Vocabulary of the statements\<close>

text \<open>
  The reference types. An archive URL is
  \<^verbatim>\<open><base>/<tags|heads>/<version>.tar.gz\<close>: the segment \<^verbatim>\<open>tags\<close> stands for a
  tag and the segment \<^verbatim>\<open>heads\<close> for a branch.
\<close>

datatype reference_type = Tag | Branch

definition reference_type_of :: "string \<Rightarrow> reference_type option" where
  "reference_type_of segment =
     (if segment = ''tags'' then Some Tag
      else if segment = ''heads'' then Some Branch
      else None)"

text \<open>
  A top-level regular file of directory \<open>d\<close> whose suffix is \<^verbatim>\<open>.onnx\<close>: the
  condition of the loop in \<^verbatim>\<open>upload_model\<close>, on the children of \<open>d\<close>.
\<close>

definition onnx_file :: "filesystem \<Rightarrow> path \<Rightarrow> path \<Rightarrow> bool" where
  "onnx_file f d q \<longleftrightarrow> child_of d q \<and> is_file f q \<and> suffix_path q = ''.onnx''"

text \<open>Where a child \<open>q\<close> of \<open>d\<close> goes when it is moved into the subfolder of \<open>d\<close>.\<close>

definition moved_to :: "path \<Rightarrow> path \<Rightarrow> path" where
  "moved_to d q = Path (is_absolute d) (parts d @ [''onnx'', name q])"

section \<open>Concrete worlds\<close>

text \<open>
  A world with an empty disk, a secrets file without a token, no token in the session, an
  unreachable network, a converter that exits with code 0 and prints nothing, and a hub
  that accepts every push.
\<close>

definition quiet_world :: world where
  "quiet_world =
     \<lparr>fs = [], protected = [], trace = [], logs = [],
      secrets = Inr Map.empty, session_state = Map.empty, environ = Map.empty,
      sys_executable = ''python3'',
      whoami_reply = (\<lambda>t. Inl (Exn ''HTTPError'' ''401'')),
      urlopen_reply = (\<lambda>u. Inl (Exn ''URLError'' ''unreachable'')),
      urlretrieve_reply = (\<lambda>u. Download_Failed (Exn ''URLError'' ''unreachable'') None),
      untar_reply = (\<lambda>c. Inl (Exn ''ReadError'' ''not a gzip file'')),
      mkdtemp_reply = Inr (Path True [''tmp'', ''tmpdir'']),
      subprocess_reply = (\<lambda>args cwd f. Terminated 0 (Inr ([], [])) f),
      upload_reply = (\<lambda>tok folder repo seg f. None)\<rparr>"

definition demo_converter :: ModelConverter where
  "demo_converter = init_converter (make_config ''hf_secret'' ''alice'')"

text \<open>The command line of the conversion.\<close>

definition convert_command :: "world \<Rightarrow> string \<Rightarrow> string list" where
  "convert_command w input_model_id =
     [sys_executable w, ''-m'', ''scripts.convert'', ''--quantize'', ''--model_id'',
      input_model_id]"

text \<open>Worlds for the conversion: the converter warns; it cannot be launched; it exits
  with code 0 after writing a byte that is not UTF-8.\<close>

definition warning_world :: world where
  "warning_world =
     quiet_world\<lparr>subprocess_reply := (\<lambda>args cwd f. Terminated 0 (Inr ([], ''warning'')) f)\<rparr>"

definition no_python_world :: world where
  "no_python_world =
     quiet_world\<lparr>subprocess_reply :=
        (\<lambda>args cwd f. Not_Launched (Exn ''FileNotFoundError'' ''No such file or directory''))\<rparr>"

definition garbled_world :: world where
  "garbled_world =
     quiet_world\<lparr>subprocess_reply :=
        (\<lambda>args cwd f. Terminated 0 (Inl (Exn ''UnicodeDecodeError'' ''invalid start byte'')) f)\<rparr>"

text \<open>Worlds for the configuration: the account name is given and no token is; there is
  no secrets file.\<close>

definition named_world :: world where
  "named_world = quiet_world\<lparr>environ := [''SPACE_AUTHOR_NAME'' \<mapsto> ''alice'']\<rparr>"

definition no_secrets_world :: world where
  "no_secrets_world =
     quiet_world\<lparr>secrets := Inl (Exn ''StreamlitSecretNotFoundError'' ''No secrets found'')\<rparr>"

text \<open>A world like \<open>online_world\<close> where the archive, once written, cannot be removed.\<close>

definition locked_archive_world :: world where
  "locked_archive_world =
     quiet_world
       \<lparr>fs := [(Path False [], Dir), (Path True [], Dir), (Path True [''tmp''], Dir)],
        protected := [Path False [''transformers_3.0.0.tar.gz'']],
        urlopen_reply := (\<lambda>u. Inr (Some 200)),
        urlretrieve_reply := (\<lambda>u. Downloaded ''tgz''),
        untar_reply := (\<lambda>c. Inr [([''transformers.js-3.0.0''], Dir),
                                 ([''transformers.js-3.0.0'', ''README.md''], File ''readme'')])\<rparr>"

text \<open>
  A world where the probe of the tag archive answers 200, the download succeeds and the
  archive holds one folder with one file.
\<close>

definition online_world :: world where
  "online_world = quiet_world
     \<lparr>fs := [(Path False [], Dir), (Path True [], Dir), (Path True [''tmp''], Dir)],
      urlopen_reply := (\<lambda>u. Inr (Some 200)),
      urlretrieve_reply := (\<lambda>u. Downloaded ''tgz''),
      untar_reply := (\<lambda>c. Inr [([''transformers.js-3.0.0''], Dir),
                               ([''transformers.js-3.0.0'', ''README.md''], File ''readme'')])\<rparr>"

text \<open>A world where the download breaks off after part of the archive was written.\<close>

definition interrupted_world :: world where
  "interrupted_world = quiet_world
     \<lparr>fs := [(Path False [], Dir)],
      urlretrieve_reply :=
        (\<lambda>u. Download_Failed (Exn ''ContentTooShortError'' ''retrieval incomplete'')
               (Some ''tg''))\<rparr>"

text \<open>
  The checkout with the output directory of the model \<^verbatim>\<open>org/model-x\<close>, holding the
  given entries.
\<close>

definition model_dir :: path where
  "model_dir = Path False [''transformers.js'', ''models'', ''org'', ''model-x'']"

definition checkout_with :: "(string list \<times> node) list \<Rightarrow> world" where
  "checkout_with entries = quiet_world
     \<lparr>fs := [(Path False [], Dir), (Path False [''transformers.js''], Dir),
             (Path False [''transformers.js'', ''models''], Dir),
             (Path False [''transformers.js'', ''models'', ''org''], Dir),
             (model_dir, Dir)]
            @ map (\<lambda>(rel, n). (Path False (parts model_dir @ rel), n)) entries\<rparr>"

definition model_world :: world where
  "model_world = checkout_with
     [([''model.onnx''], File ''m''), ([''config.json''], File ''c''),
      ([''sub''], Dir), ([''sub'', ''nested.onnx''], File ''n'')]"

definition protected_world :: world where
  "protected_world = model_world\<lparr>protected := [Path False (parts model_dir @ [''config.json''])]\<rparr>"



definition blocked_model_world :: world where
  "blocked_model_world = checkout_with [([''model.onnx''], File ''m''), ([''onnx''], File ''x'')]"

section \<open>Conversion results\<close>

text \<open>
  Claim C1, as stated: whenever the conversion subprocess launches and terminates,
  \<open>convert_model\<close> returns success exactly when the exit code is zero, with the
  captured standard error. In \<open>garbled_world\<close> the subprocess launches and exits with
  code 0, but its output holds a byte that is not UTF-8, so \<^verbatim>\<open>subprocess.run\<close>
  raises: \<open>convert_model\<close> returns failure, and its message is the text of the
  exception, not the standard error.
\<close>

theorem convert_model_exit_code_counterexample:
  "subprocess_reply garbled_world (convert_command garbled_world ''org/model-x'')
     (repo_path (config demo_converter)) (fs garbled_world)
     = Terminated 0 (Inl (Exn ''UnicodeDecodeError'' ''invalid start byte'')) (fs garbled_world)
   \<and> fst (convert_model demo_converter ''org/model-x'' garbled_world)
       = Inr (False, Some ''invalid start byte'')"
  by (simp add: garbled_world_def quiet_world_def convert_model_def subprocess_run_def
        convert_command_def str_def Let_def)

text \<open>
  Claim C1, amended. When the conversion subprocess launches and terminates and its
  captured output decodes as text, \<open>convert_model\<close> returns (it does not raise) a pair
  whose first component is true exactly when the exit code is zero and whose second
  component is the captured standard error, on success as on failure. When reading the
  captured output raises, it returns failure with the text of that exception.
\<close>

theorem convert_model_exit_code:
  assumes "subprocess_reply w (convert_command w input_model_id) (repo_path (config self)) (fs w)
             = Terminated rc captured f'"
  shows "fst (convert_model self input_model_id w) =
           Inr (case captured of
                  Inr (out, err) \<Rightarrow> (rc = 0, Some err)
                | Inl e \<Rightarrow> (False, Some (str e)))"
  using assms
  by (cases captured)
     (auto simp: convert_model_def subprocess_run_def convert_command_def Let_def)

theorem convert_model_exit_code_witness:
  "subprocess_reply warning_world (convert_command warning_world ''org/model-x'')
     (repo_path (config demo_converter)) (fs warning_world)
     = Terminated 0 (Inr ([], ''warning'')) []
   \<and> fst (convert_model demo_converter ''org/model-x'' warning_world)
       = Inr (True, Some ''warning'')"
proof -
  have h: "subprocess_reply warning_world (convert_command warning_world ''org/model-x'')
             (repo_path (config demo_converter)) (fs warning_world)
           = Terminated 0 (Inr ([], ''warning'')) []"
    by (simp add: warning_world_def quiet_world_def)
  from convert_model_exit_code [OF h] h show ?thesis by simp
qed

text \<open>
  Claim C9. When \<^verbatim>\<open>subprocess.run\<close> raises, because the subprocess cannot be
  launched or for any other reason, \<open>convert_model\<close> does not raise: it returns
  failure with the text of the exception as the message.
\<close>

theorem convert_model_launch_exception:
  assumes "fst (subprocess_run (convert_command w input_model_id) (repo_path (config self)) [] w)
             = Inl e"
  shows "fst (convert_model self input_model_id w) = Inr (False, Some (str e))"
  using assms
  by (cases "subprocess_run (convert_command w input_model_id) (repo_path (config self)) [] w")
     (auto simp: convert_model_def convert_command_def)

theorem convert_model_launch_exception_witness:
  "subprocess_reply no_python_world (convert_command no_python_world ''org/model-x'')
     (repo_path (config demo_converter)) (fs no_python_world)
     = Not_Launched (Exn ''FileNotFoundError'' ''No such file or directory'')
   \<and> fst (subprocess_run (convert_command no_python_world ''org/model-x'')
            (repo_path (config demo_converter)) [] no_python_world)
       = Inl (Exn ''FileNotFoundError'' ''No such file or directory'')
   \<and> fst (convert_model demo_converter ''org/model-x'' no_python_world)
       = Inr (False, Some ''No such file or directory'')"
proof -
  have h1: "subprocess_reply no_python_world (convert_command no_python_world ''org/model-x'')
              (repo_path (config demo_converter)) (fs no_python_world)
            = Not_Launched (Exn ''FileNotFoundError'' ''No such file or directory'')"
    by (simp add: no_python_world_def quiet_world_def)
  then have h2: "fst (subprocess_run (convert_command no_python_world ''org/model-x'')
                        (repo_path (config demo_converter)) [] no_python_world)
                 = Inl (Exn ''FileNotFoundError'' ''No such file or directory'')"
    by (simp add: subprocess_run_def Let_def)
  from convert_model_launch_exception [OF h2] h1 h2 show ?thesis by (simp add: str_def)
qed

section \<open>Configuration resolution\<close>

text \<open>
  Claim C2. When neither the session's user token nor the system secret resolves to a
  token (the secrets cannot be loaded, or they hold no token), \<open>from_env\<close> fails: with
  the error of loading the secrets; or with the error that the token must be set; or,
  when the account name had to be looked up and the lookup failed, with the failure of
  the identity service. The identity service is called at most once, and only when the
  secrets load and \<^verbatim>\<open>SPACE_AUTHOR_NAME\<close> does not give the account name; nothing else
  changes.
\<close>

theorem from_env_missing_token:
  assumes "\<not> truthy (session_state w ''user_hf_token'')"
      and "\<forall>m. secrets w = Inr m \<longrightarrow> \<not> truthy (m ''HF_TOKEN'')"
  shows "\<exists>e. fst (from_env w) = Inl e
           \<and> (secrets w = Inl e
                \<or> (\<exists>m. secrets w = Inr m
                      \<and> (e = Exn ''ValueError'' ''HF_TOKEN must be set''
                           \<or> \<not> truthy (environ w ''SPACE_AUTHOR_NAME'')
                               \<and> fst (whoami_name (m ''HF_TOKEN'') w) = Inl e)))
           \<and> snd (from_env w) =
               w\<lparr>trace := trace w @
                   (case secrets w of
                      Inl x \<Rightarrow> []
                    | Inr m \<Rightarrow> if truthy (environ w ''SPACE_AUTHOR_NAME'') then []
                               else [Whoami (m ''HF_TOKEN'')])\<rparr>"
proof (cases "secrets w")
  case (Inl x)
  then show ?thesis
    by (simp add: from_env_def secrets_get_def bind_def raise_def)
next
  case (Inr m)
  with assms(2) have "\<not> truthy (m ''HF_TOKEN'')" by simp
  with Inr assms(1) show ?thesis
    by (auto simp add: from_env_def secrets_get_def whoami_name_def bind_def return_def Let_def
             split: sum.splits option.splits)
qed

theorem from_env_missing_token_witness:
  "\<not> truthy (session_state named_world ''user_hf_token'')
   \<and> secrets named_world = Inr Map.empty
   \<and> fst (from_env named_world) = Inl (Exn ''ValueError'' ''HF_TOKEN must be set'')
   \<and> trace (snd (from_env named_world)) = []
   \<and> \<not> truthy (session_state no_secrets_world ''user_hf_token'')
   \<and> secrets no_secrets_world = Inl (Exn ''StreamlitSecretNotFoundError'' ''No secrets found'')
   \<and> fst (from_env no_secrets_world)
       = Inl (Exn ''StreamlitSecretNotFoundError'' ''No secrets found'')
   \<and> trace (snd (from_env no_secrets_world)) = []"
proof -
  have a1: "\<not> truthy (session_state named_world ''user_hf_token'')"
    by (simp add: named_world_def quiet_world_def truthy_def)
  have a2: "secrets named_world = Inr Map.empty"
    by (simp add: named_world_def quiet_world_def)
  have a3: "truthy (environ named_world ''SPACE_AUTHOR_NAME'')"
    by (simp add: named_world_def truthy_def)
  have a4: "trace named_world = []"
    by (simp add: named_world_def quiet_world_def)
  from a2 have a2': "\<forall>m. secrets named_world = Inr m \<longrightarrow> \<not> truthy (m ''HF_TOKEN'')"
    by (simp add: truthy_def)
  have b1: "\<not> truthy (session_state no_secrets_world ''user_hf_token'')"
    by (simp add: no_secrets_world_def quiet_world_def truthy_def)
  have b2: "secrets no_secrets_world
              = Inl (Exn ''StreamlitSecretNotFoundError'' ''No secrets found'')"
    by (simp add: no_secrets_world_def)
  have b4: "trace no_secrets_world = []"
    by (simp add: no_secrets_world_def quiet_world_def)
  from b2 have b2': "\<forall>m. secrets no_secrets_world = Inr m \<longrightarrow> \<not> truthy (m ''HF_TOKEN'')"
    by simp
  from from_env_missing_token [OF a1 a2'] a2 a3 a4
  have A: "fst (from_env named_world) = Inl (Exn ''ValueError'' ''HF_TOKEN must be set'')
           \<and> trace (snd (from_env named_world)) = []"
    by auto
  from from_env_missing_token [OF b1 b2'] b2 b4
  have B: "fst (from_env no_secrets_world)
             = Inl (Exn ''StreamlitSecretNotFoundError'' ''No secrets found'')
           \<and> trace (snd (from_env no_secrets_world)) = []"
    by auto
  from a1 a2 A b1 b2 B show ?thesis by blast
qed

section \<open>Bootstrap\<close>

text \<open>
  Claim C5. For every outcome of the probe of the tag archive, \<open>get_ref_type\<close> returns
  and never raises. When the probe succeeds (it answers with status 200) the function
  returns the tag reference type, as the URL segment "tags"; when the probe raises or
  answers with anything else, it returns the branch reference type, as the URL segment
  "heads".
\<close>

theorem get_ref_type_total:
  "fst (get_ref_type self w) =
     Inr (if urlopen_reply w (transformers_base_url (config self) @ ''/tags/''
                  @ transformers_version (config self) @ ''.tar.gz'') = Inr (Some 200)
          then ''tags'' else ''heads'')
   \<and> (\<exists>segment. fst (get_ref_type self w) = Inr segment
         \<and> reference_type_of segment =
             Some (if urlopen_reply w (transformers_base_url (config self) @ ''/tags/''
                          @ transformers_version (config self) @ ''.tar.gz'') = Inr (Some 200)
                   then Tag else Branch))"
  by (cases "urlopen_reply w (transformers_base_url (config self) @ ''/tags/''
                  @ transformers_version (config self) @ ''.tar.gz'')")
     (simp_all add: get_ref_type_def urlopen_getcode_def reference_type_of_def Let_def)

theorem get_ref_type_total_witness:
  "fst (get_ref_type demo_converter online_world) = Inr ''tags''
   \<and> reference_type_of ''tags'' = Some Tag
   \<and> fst (get_ref_type demo_converter (quiet_world\<lparr>urlopen_reply := (\<lambda>u. Inr (Some 404))\<rparr>))
       = Inr ''heads''
   \<and> fst (get_ref_type demo_converter quiet_world) = Inr ''heads''
   \<and> reference_type_of ''heads'' = Some Branch"
  using get_ref_type_total [of demo_converter online_world]
        get_ref_type_total
          [of demo_converter "quiet_world\<lparr>urlopen_reply := (\<lambda>u. Inr (Some 404))\<rparr>"]
        get_ref_type_total [of demo_converter quiet_world]
  by (simp add: quiet_world_def online_world_def reference_type_of_def)

text \<open>
  Claim C8. When the checkout path exists, \<open>setup_repository\<close> returns at once: no
  call leaves the process, the disk is not changed, and the world is the one it started
  in.
\<close>

theorem setup_repository_existing_checkout:
  assumes "exists_path (fs w) (repo_path (config self))"
  shows "setup_repository self w = (Inr (), w)"
  using assms by (simp add: setup_repository_def return_def)

theorem setup_repository_existing_checkout_witness:
  "exists_path
     (fs (quiet_world\<lparr>fs := [(Path False [], Dir), (Path False [''transformers.js''], Dir)]\<rparr>))
     (repo_path (config demo_converter))
   \<and> setup_repository demo_converter
        (quiet_world\<lparr>fs := [(Path False [], Dir), (Path False [''transformers.js''], Dir)]\<rparr>)
      = (Inr (),
         quiet_world\<lparr>fs := [(Path False [], Dir), (Path False [''transformers.js''], Dir)]\<rparr>)"
proof -
  have h: "exists_path
     (fs (quiet_world\<lparr>fs := [(Path False [], Dir), (Path False [''transformers.js''], Dir)]\<rparr>))
     (repo_path (config demo_converter))"
    by (simp add: exists_path_def demo_converter_def init_converter_def make_config_def
          parse_path_def)
  show ?thesis using h setup_repository_existing_checkout [OF h] by simp
qed

subsection \<open>The archive is removed\<close>

lemma get_ref_type_returns: "\<exists>s w1. get_ref_type self w = (Inr s, w1)"
  by (cases "urlopen_reply w (transformers_base_url (config self) @ ''/tags/''
                  @ transformers_version (config self) @ ''.tar.gz'')")
     (simp_all add: get_ref_type_def urlopen_getcode_def Let_def)

text \<open>The two ways out of a \<^verbatim>\<open>finally\<close> clause.\<close>

lemma try_finally_cleanup:
  obtains w0 res0 u where "r = (res0, w0)"
      and "cleanup w0 = (Inr u, snd (try_finally r cleanup))"
      and "fst (try_finally r cleanup) = res0"
    | w0 res0 e where "r = (res0, w0)"
      and "cleanup w0 = (Inl e, snd (try_finally r cleanup))"
      and "fst (try_finally r cleanup) = Inl e"
proof (cases r)
  case (Pair res0 w0)
  show ?thesis
  proof (cases "cleanup w0")
    case (Pair c w')
    then show ?thesis using \<open>r = (res0, w0)\<close> that
      by (cases c) (auto simp: try_finally_def)
  qed
qed

lemma unlink_ok_absent:
  assumes "unlink p True w = (Inr u, w')"
  shows "\<not> exists_path (fs w') p"
  using assms
  by (auto simp: unlink_def os_unlink_def raise_def return_def exists_path_def delete_conv'
      split: option.splits node.splits if_splits)

lemma unlink_raises_class:
  assumes "unlink p True w = (Inl e, w')"
  shows "exn_class e = ''IsADirectoryError'' \<or> exn_class e = ''PermissionError''"
  using assms
  by (auto simp: unlink_def os_unlink_def raise_def return_def
      split: option.splits node.splits if_splits)

text \<open>
  Claim C7, as stated: after every bootstrap that reaches the download, the archive file
  does not exist. In \<open>locked_archive_world\<close> the checkout is missing, the archive is
  downloaded and extracted, and the removal of the archive in the \<^verbatim>\<open>finally\<close> clause
  raises \<^verbatim>\<open>PermissionError\<close>: that error leaves \<open>setup_repository\<close>, and the
  archive file is still on disk.
\<close>

theorem setup_repository_archive_removed_counterexample:
  "\<not> exists_path (fs locked_archive_world) (repo_path (config demo_converter))
   \<and> map_sum exn_class (\<lambda>u. u) (fst (setup_repository demo_converter locked_archive_world))
       = Inl ''PermissionError''
   \<and> is_dir (fs (snd (setup_repository demo_converter locked_archive_world)))
        (repo_path (config demo_converter))
   \<and> is_file (fs (snd (setup_repository demo_converter locked_archive_world)))
        (archive_path demo_converter)"
  by code_simp

text \<open>
  Claim C7, amended. For every bootstrap that reaches the download (the checkout is
  missing): when \<open>setup_repository\<close> returns or raises its setup error (the
  \<^verbatim>\<open>RuntimeError\<close>), the archive file does not exist afterwards; the archive is left
  on disk only when its removal itself fails, and then \<open>setup_repository\<close> raises the
  error of the removal.
\<close>

theorem setup_repository_archive_removed:
  assumes "\<not> exists_path (fs w) (repo_path (config self))"
  shows "(fst (setup_repository self w) = Inr ()
            \<or> (\<exists>e. fst (setup_repository self w) = Inl e \<and> exn_class e = ''RuntimeError'')
          \<longrightarrow> \<not> exists_path (fs (snd (setup_repository self w))) (archive_path self))
       \<and> (exists_path (fs (snd (setup_repository self w))) (archive_path self)
          \<longrightarrow> (\<exists>e. fst (setup_repository self w) = Inl e
                   \<and> (exn_class e = ''IsADirectoryError''
                        \<or> exn_class e = ''PermissionError'')))"
proof -
  obtain s w1 where g: "get_ref_type self w = (Inr s, w1)"
    using get_ref_type_returns by blast
  obtain body where
    eq: "setup_repository self w = try_finally body (unlink (archive_path self) True)"
    using assms(1) g by (simp add: setup_repository_def bind_def Let_def)
  show ?thesis
  proof (rule try_finally_cleanup [of body "unlink (archive_path self) True"])
    fix w0 res0 u
    assume "unlink (archive_path self) True w0
              = (Inr u, snd (try_finally body (unlink (archive_path self) True)))"
    then have "\<not> exists_path (fs (snd (setup_repository self w))) (archive_path self)"
      unfolding eq by (rule unlink_ok_absent)
    then show ?thesis by blast
  next
    fix w0 res0 e
    assume c: "unlink (archive_path self) True w0
                 = (Inl e, snd (try_finally body (unlink (archive_path self) True)))"
       and f: "fst (try_finally body (unlink (archive_path self) True)) = Inl e"
    from unlink_raises_class [OF c] f show ?thesis
      unfolding eq by auto
  qed
qed

theorem setup_repository_archive_removed_witness:
  "\<not> exists_path (fs online_world) (repo_path (config demo_converter))
   \<and> fst (setup_repository demo_converter online_world) = Inr ()
   \<and> is_dir (fs (snd (setup_repository demo_converter online_world)))
        (repo_path (config demo_converter))
   \<and> archive_path demo_converter = Path False [''transformers_3.0.0.tar.gz'']
   \<and> \<not> exists_path (fs (snd (setup_repository demo_converter online_world)))
          (archive_path demo_converter)
   \<and> \<not> exists_path (fs interrupted_world) (repo_path (config demo_converter))
   \<and> fst (setup_repository demo_converter interrupted_world)
       = Inl (Exn ''RuntimeError'' ''Failed to setup repository: retrieval incomplete'')
   \<and> \<not> exists_path (fs (snd (setup_repository demo_converter interrupted_world)))
          (archive_path demo_converter)"
proof -
  have h1: "\<not> exists_path (fs online_world) (repo_path (config demo_converter))"
    by code_simp
  have h2: "fst (setup_repository demo_converter online_world) = Inr ()"
    by code_simp
  have h3: "is_dir (fs (snd (setup_repository demo_converter online_world)))
              (repo_path (config demo_converter))"
    by code_simp
  have h4: "archive_path demo_converter = Path False [''transformers_3.0.0.tar.gz'']"
    by code_simp
  have k1: "\<not> exists_path (fs interrupted_world) (repo_path (config demo_converter))"
    by code_simp
  have k2: "fst (setup_repository demo_converter interrupted_world)
              = Inl (Exn ''RuntimeError'' ''Failed to setup repository: retrieval incomplete'')"
    by code_simp
  have k3: "exn_class (Exn ''RuntimeError'' ''Failed to setup repository: retrieval incomplete'')
              = ''RuntimeError''"
    by (simp only: exn.sel)
  from k2 k3 have k2': "fst (setup_repository demo_converter interrupted_world) = Inr ()
           \<or> (\<exists>e. fst (setup_repository demo_converter interrupted_world) = Inl e
                  \<and> exn_class e = ''RuntimeError'')"
    by blast
  from setup_repository_archive_removed [OF h1] h2
  have a: "\<not> exists_path (fs (snd (setup_repository demo_converter online_world)))
             (archive_path demo_converter)"
    by blast
  from setup_repository_archive_removed [OF k1] k2'
  have b: "\<not> exists_path (fs (snd (setup_repository demo_converter interrupted_world)))
             (archive_path demo_converter)"
    by blast
  from a b h1 h2 h3 h4 k1 k2 show ?thesis by blast
qed

section \<open>Upload\<close>

subsection \<open>What the file-system operations leave alone\<close>

lemma os_mkdir_frame: "snd (os_mkdir p w) = w\<lparr>fs := fs (snd (os_mkdir p w))\<rparr>"
  by (simp add: os_mkdir_def raise_def return_def)

lemma mkdir_frame: "snd (mkdir p b w) = w\<lparr>fs := fs (snd (mkdir p b w))\<rparr>"
proof (cases "os_mkdir p w")
  case (Pair res w')
  with os_mkdir_frame [of p w] show ?thesis
    by (cases res) (auto simp: mkdir_def)
qed

lemma iterdir_frame: "snd (iterdir p w) = w"
  by (simp add: iterdir_def raise_def return_def)

lemma os_rename_frame: "snd (os_rename src dst w) = w\<lparr>fs := fs (snd (os_rename src dst w))\<rparr>"
  by (simp add: os_rename_def raise_def return_def split: option.splits node.splits)

lemma frame_trans:
  assumes "w1 = w\<lparr>fs := f1\<rparr>" and "w2 = w1\<lparr>fs := f2\<rparr>"
  shows "w2 = w\<lparr>fs := fs w2\<rparr>"
  using assms by simp

lemma move_onnx_files_frame:
  "snd (move_onnx_files target files w) = w\<lparr>fs := fs (snd (move_onnx_files target files w))\<rparr>"
proof (induction files arbitrary: w)
  case Nil
  show ?case by (simp add: return_def)
next
  case (Cons x xs)
  show ?case
  proof (cases "is_file (fs w) x \<and> suffix_path x = ''.onnx''")
    case False
    then show ?thesis using Cons.IH [of w] by auto
  next
    case True
    obtain res w1 where r: "os_rename x (joinpath target (name x)) w = (res, w1)"
      by (cases "os_rename x (joinpath target (name x)) w")
    have f1: "w1 = w\<lparr>fs := fs w1\<rparr>" using os_rename_frame [of x "joinpath target (name x)" w] r by simp
    show ?thesis
    proof (cases res)
      case (Inl e)
      with True r f1 show ?thesis by (simp add: bind_def)
    next
      case (Inr u)
      have "snd (move_onnx_files target xs w1) = w1\<lparr>fs := fs (snd (move_onnx_files target xs w1))\<rparr>"
        by (rule Cons.IH)
      with f1 have "snd (move_onnx_files target xs w1) = w\<lparr>fs := fs (snd (move_onnx_files target xs w1))\<rparr>"
        by (metis frame_trans)
      with True r Inr show ?thesis by (simp add: bind_def)
    qed
  qed
qed

lemma relocate_onnx_files_frame:
  "snd (relocate_onnx_files d target w) = w\<lparr>fs := fs (snd (relocate_onnx_files d target w))\<rparr>"
proof -
  obtain r1 w1 where m: "mkdir target True w = (r1, w1)" by (cases "mkdir target True w")
  have f1: "w1 = w\<lparr>fs := fs w1\<rparr>" using mkdir_frame [of target True w] m by simp
  show ?thesis
  proof (cases r1)
    case (Inl e)
    with m f1 show ?thesis by (simp add: relocate_onnx_files_def bind_def)
  next
    case (Inr u)
    obtain r2 w2 where i: "iterdir d w1 = (r2, w2)" by (cases "iterdir d w1")
    have w2: "w2 = w1" using iterdir_frame [of d w1] i by simp
    show ?thesis
    proof (cases r2)
      case (Inl e)
      with m f1 Inr i w2 show ?thesis by (simp add: relocate_onnx_files_def bind_def)
    next
      case (Inr files)
      have "snd (move_onnx_files target files w1) = w1\<lparr>fs := fs (snd (move_onnx_files target files w1))\<rparr>"
        by (rule move_onnx_files_frame)
      with f1 have "snd (move_onnx_files target files w1) = w\<lparr>fs := fs (snd (move_onnx_files target files w1))\<rparr>"
        by (metis frame_trans)
      with m \<open>r1 = Inr u\<close> i w2 Inr show ?thesis by (simp add: relocate_onnx_files_def bind_def)
    qed
  qed
qed

lemma rmtree_ignore_returns: "fst (rmtree p True w) = Inr ()"
  by (simp add: rmtree_def Let_def)

lemma rmtree_frame: "snd (rmtree p b w) = w\<lparr>fs := fs (snd (rmtree p b w))\<rparr>"
  by (simp add: rmtree_def Let_def raise_def return_def split: option.splits node.splits)

lemma try_finally_rmtree:
  "try_finally (res, w0) (rmtree p True) = (res, snd (rmtree p True w0))"
proof -
  obtain c w' where c: "rmtree p True w0 = (c, w')" by (cases "rmtree p True w0")
  with rmtree_ignore_returns [of p w0] have "c = Inr ()" by simp
  with c show ?thesis by (simp add: try_finally_def)
qed

text \<open>\<^verbatim>\<open>upload_model\<close>, case by case.\<close>

lemma upload_model_unfold:
  "upload_model self input_model_id w =
     (case relocate_onnx_files (model_folder_path self input_model_id)
             (onnx_folder_path self input_model_id) w of
        (Inl e, w1) \<Rightarrow>
          (Inr (Some (str e)), snd (rmtree (model_folder_path self input_model_id) True w1))
      | (Inr u, w1) \<Rightarrow>
          (case upload_reply w1 (token (api self))
                  (path_str (onnx_folder_path self input_model_id)) input_model_id ''onnx''
                  (fs w1) of
             Some e \<Rightarrow>
               (Inr (Some (str e)),
                snd (rmtree (model_folder_path self input_model_id) True
                  (w1\<lparr>trace := trace w1 @
                     [Upload_Folder (token (api self))
                        (path_str (onnx_folder_path self input_model_id))
                        input_model_id ''onnx'']\<rparr>)))
           | None \<Rightarrow>
               (Inr None,
                snd (rmtree (model_folder_path self input_model_id) True
                  (w1\<lparr>trace := trace w1 @
                     [Upload_Folder (token (api self))
                        (path_str (onnx_folder_path self input_model_id))
                        input_model_id ''onnx'']\<rparr>)))))"
  by (simp add: upload_model_def bind_def upload_folder_def raise_def return_def
        try_finally_rmtree Let_def
      split: prod.splits sum.splits option.splits)

subsection \<open>The output directory during the relocation\<close>

lemma joinpath_onnx: "joinpath d ''onnx'' = Path (is_absolute d) (parts d @ [''onnx''])"
  by (simp add: joinpath_def parse_path_def Let_def)

lemma parent_snoc: "parent (Path a (ps @ [n])) = Path a ps"
  by (simp add: parent_def)

lemma path_collapse: "Path (is_absolute d) (parts d) = d"
  by (cases d) simp

lemma map_of_filter_out:
  "\<not> P k \<Longrightarrow> map_of (filter (\<lambda>(q, m). P q) f) k = None"
  by (induction f) auto

lemma map_of_filter_keep:
  "P k \<Longrightarrow> map_of (filter (\<lambda>(q, m). P q) f) k = map_of f k"
  by (induction f) auto

lemma under_trans: "under a b \<Longrightarrow> under b c \<Longrightarrow> under a c"
  by (auto simp: under_def)

lemma under_refl: "under a a"
  by (simp add: under_def)

lemma rmtree_unprotected:
  assumes "\<forall>q \<in> set (protected w). \<not> under d q"
  shows "map_of (fs (snd (rmtree d True w))) d =
           (case map_of (fs w) d of Some (File c) \<Rightarrow> Some (File c) | _ \<Rightarrow> None)"
proof (cases "map_of (fs w) d")
  case None
  then show ?thesis by (simp add: rmtree_def raise_def)
next
  case (Some n)
  show ?thesis
  proof (cases n)
    case (File c)
    with Some show ?thesis by (simp add: rmtree_def raise_def)
  next
    case Dir
    have "removable w d" using assms by (auto simp: removable_def)
    then have "map_of (filter (\<lambda>(q, m). \<not> (under d q \<and> removable w q)) (fs w)) d = None"
      by (intro map_of_filter_out) (simp add: under_refl)
    with Some Dir show ?thesis
      by (simp add: rmtree_def Let_def raise_def return_def exists_path_def)
  qed
qed

lemma os_rename_file_keeps_dir:
  assumes "is_dir (fs w) d" and "is_file (fs w) src"
  shows "is_dir (fs (snd (os_rename src dst w))) d"
proof -
  from assms(2) obtain c where c: "map_of (fs w) src = Some (File c)"
    by (auto simp: is_file_def split: option.splits node.splits)
  with assms(1) have ne: "src \<noteq> d" by (auto simp: is_dir_def)
  show ?thesis using assms(1) c ne
    by (auto simp: os_rename_def raise_def return_def is_dir_def update_conv' delete_conv')
qed

lemma move_onnx_files_keeps_dir:
  "is_dir (fs w) d \<Longrightarrow> is_dir (fs (snd (move_onnx_files target xs w))) d"
proof (induction xs arbitrary: w)
  case Nil
  then show ?case by (simp add: return_def)
next
  case (Cons x xs)
  show ?case
  proof (cases "is_file (fs w) x \<and> suffix_path x = ''.onnx''")
    case False
    then show ?thesis using Cons by auto
  next
    case True
    obtain res w1 where r: "os_rename x (joinpath target (name x)) w = (res, w1)"
      by (cases "os_rename x (joinpath target (name x)) w")
    have d1: "is_dir (fs w1) d"
      using os_rename_file_keeps_dir [of w d x "joinpath target (name x)"] Cons.prems True r by simp
    show ?thesis
    proof (cases res)
      case (Inl e)
      with True r d1 show ?thesis by (simp add: bind_def)
    next
      case (Inr u)
      with True r Cons.IH [OF d1] show ?thesis by (simp add: bind_def)
    qed
  qed
qed

lemma mkdir_onnx_keeps:
  "map_of (fs (snd (mkdir (joinpath d ''onnx'') True w))) d = map_of (fs w) d"
proof -
  have ne: "joinpath d ''onnx'' \<noteq> d"
    by (cases d) (simp add: joinpath_onnx)
  show ?thesis using ne
    by (auto simp: mkdir_def os_mkdir_def raise_def return_def update_conv')
qed

lemma relocate_keeps_dir:
  assumes "is_dir (fs w) d"
  shows "is_dir (fs (snd (relocate_onnx_files d (joinpath d ''onnx'') w))) d"
proof -
  obtain r1 w1 where m: "mkdir (joinpath d ''onnx'') True w = (r1, w1)"
    by (cases "mkdir (joinpath d ''onnx'') True w")
  have d1: "is_dir (fs w1) d"
    using mkdir_onnx_keeps [of d w] m assms by (simp add: is_dir_def)
  show ?thesis
  proof (cases r1)
    case (Inl e)
    with m d1 show ?thesis by (simp add: relocate_onnx_files_def bind_def)
  next
    case (Inr u)
    with m d1 move_onnx_files_keeps_dir [OF d1] show ?thesis
      by (simp add: relocate_onnx_files_def bind_def iterdir_def return_def)
  qed
qed

lemma relocate_absent:
  assumes "map_of (fs w) d = None"
  shows "fs (snd (relocate_onnx_files d (joinpath d ''onnx'') w)) = fs w"
proof -
  have p: "parent (joinpath d ''onnx'') = d"
    by (simp add: joinpath_onnx parent_snoc path_collapse)
  obtain r1 w1 where m: "mkdir (joinpath d ''onnx'') True w = (r1, w1)"
    by (cases "mkdir (joinpath d ''onnx'') True w")
  have w1: "fs w1 = fs w"
    using m assms p
    by (auto simp: mkdir_def os_mkdir_def raise_def return_def exists_path_def split: if_splits)
  have "\<not> is_dir (fs w1) d" using assms w1 by (simp add: is_dir_def)
  then show ?thesis using m w1
    by (cases r1) (simp_all add: relocate_onnx_files_def bind_def iterdir_def raise_def)
qed

lemma relocate_not_file:
  assumes "\<not> is_file (fs w) d"
  shows "\<not> is_file (fs (snd (relocate_onnx_files d (joinpath d ''onnx'') w))) d"
proof (cases "map_of (fs w) d")
  case None
  with relocate_absent [OF None] show ?thesis by (simp add: is_file_def)
next
  case (Some n)
  with assms have "is_dir (fs w) d"
    by (cases n) (simp_all add: is_file_def is_dir_def)
  from relocate_keeps_dir [OF this] show ?thesis by (simp add: is_dir_def is_file_def)
qed

subsection \<open>Cleanup\<close>

lemma upload_model_returns: "\<exists>r. fst (upload_model self input_model_id w) = Inr r"
  by (simp add: upload_model_unfold split: prod.splits sum.splits option.splits)

lemma upload_model_before_cleanup:
  "\<exists>w2. snd (upload_model self input_model_id w)
           = snd (rmtree (model_folder_path self input_model_id) True w2)
        \<and> fs w2 = fs (snd (relocate_onnx_files (model_folder_path self input_model_id)
                             (onnx_folder_path self input_model_id) w))
        \<and> protected w2 = protected w"
proof -
  define d where "d = model_folder_path self input_model_id"
  define t where "t = onnx_folder_path self input_model_id"
  obtain r1 w1 where r: "relocate_onnx_files d t w = (r1, w1)"
    by (cases "relocate_onnx_files d t w")
  have f: "w1 = w\<lparr>fs := fs w1\<rparr>"
    using relocate_onnx_files_frame [of d t w] r by simp
  have p: "protected w1 = protected w"
    by (subst f) simp
  have ?thesis unfolding d_def [symmetric] t_def [symmetric]
  proof (cases r1)
    case (Inl e)
    with r p show "\<exists>w2. snd (upload_model self input_model_id w) = snd (rmtree d True w2)
        \<and> fs w2 = fs (snd (relocate_onnx_files d t w)) \<and> protected w2 = protected w"
      by (auto simp: upload_model_unfold d_def [symmetric] t_def [symmetric])
  next
    case (Inr u)
    with r p show "\<exists>w2. snd (upload_model self input_model_id w) = snd (rmtree d True w2)
        \<and> fs w2 = fs (snd (relocate_onnx_files d t w)) \<and> protected w2 = protected w"
      by (cases "upload_reply w1 (token (api self)) (path_str t) input_model_id ''onnx'' (fs w1)")
         (auto simp: upload_model_unfold d_def [symmetric] t_def [symmetric]
            intro!: exI [of _ "w1\<lparr>trace := trace w1 @
              [Upload_Folder (token (api self)) (path_str t) input_model_id ''onnx'']\<rparr>"])
  qed
  then show ?thesis .
qed

text \<open>
  Claim C4, as stated: after every call the output directory no longer exists. In
  \<open>protected_world\<close> the file \<^verbatim>\<open>config.json\<close> of the output directory cannot be
  removed: \<open>upload_model\<close> returns success, the error of the cleanup is suppressed, and
  the directory is still there with that file.
\<close>

theorem upload_model_cleanup_counterexample:
  "fst (upload_model demo_converter ''org/model-x'' protected_world) = Inr None
   \<and> model_folder_path demo_converter ''org/model-x'' = model_dir
   \<and> is_dir (fs (snd (upload_model demo_converter ''org/model-x'' protected_world))) model_dir
   \<and> is_file (fs (snd (upload_model demo_converter ''org/model-x'' protected_world)))
        (Path False (parts model_dir @ [''config.json'']))"
  by code_simp

text \<open>
  Claim C4, amended. Every call of \<open>upload_model\<close> returns, with or without an error
  string, and never raises: an error of the cleanup is suppressed. When nothing in the
  output directory is protected against removal, so that the cleanup meets no error, no
  directory exists at the path of the output directory afterwards, and the path does not
  exist at all unless it was a regular file before the call.
\<close>

theorem upload_model_cleanup:
  "(\<exists>r. fst (upload_model self input_model_id w) = Inr r)
   \<and> ((\<forall>q \<in> set (protected w). \<not> under (model_folder_path self input_model_id) q)
        \<longrightarrow> \<not> is_dir (fs (snd (upload_model self input_model_id w)))
                  (model_folder_path self input_model_id)
            \<and> (\<not> is_file (fs w) (model_folder_path self input_model_id)
                 \<longrightarrow> \<not> exists_path (fs (snd (upload_model self input_model_id w)))
                        (model_folder_path self input_model_id)))"
proof -
  define d where "d = model_folder_path self input_model_id"
  have t: "onnx_folder_path self input_model_id = joinpath d ''onnx''"
    by (simp add: onnx_folder_path_def d_def)
  obtain w2 where s: "snd (upload_model self input_model_id w) = snd (rmtree d True w2)"
      and f: "fs w2 = fs (snd (relocate_onnx_files d (joinpath d ''onnx'') w))"
      and p: "protected w2 = protected w"
    using upload_model_before_cleanup [of self input_model_id w] unfolding t d_def [symmetric]
    by blast
  have ret: "\<exists>r. fst (upload_model self input_model_id w) = Inr r"
    by (rule upload_model_returns)
  have gone: "\<not> is_dir (fs (snd (upload_model self input_model_id w))) d
            \<and> (\<not> is_file (fs w) d
                 \<longrightarrow> \<not> exists_path (fs (snd (upload_model self input_model_id w))) d)"
    if h: "\<forall>q \<in> set (protected w). \<not> under d q"
  proof -
    from h p have "\<forall>q \<in> set (protected w2). \<not> under d q" by simp
    from rmtree_unprotected [OF this]
    have m: "map_of (fs (snd (upload_model self input_model_id w))) d =
               (case map_of (fs w2) d of Some (File c) \<Rightarrow> Some (File c) | _ \<Rightarrow> None)"
      by (simp add: s)
    have a: "\<not> is_dir (fs (snd (upload_model self input_model_id w))) d"
      using m by (auto simp: is_dir_def split: option.splits node.splits)
    have b: "\<not> exists_path (fs (snd (upload_model self input_model_id w))) d"
      if nf: "\<not> is_file (fs w) d"
    proof -
      from relocate_not_file [OF nf] f have "\<not> is_file (fs w2) d" by simp
      with m show ?thesis
        by (auto simp: exists_path_def is_file_def split: option.splits node.splits)
    qed
    from a b show ?thesis by blast
  qed
  from ret gone show ?thesis unfolding d_def by blast
qed

theorem upload_model_cleanup_witness:
  "list_all (\<lambda>q. \<not> under (model_folder_path demo_converter ''org/model-x'') q)
     (protected model_world)
   \<and> is_dir (fs model_world) (model_folder_path demo_converter ''org/model-x'')
   \<and> fst (upload_model demo_converter ''org/model-x'' model_world) = Inr None
   \<and> \<not> exists_path (fs (snd (upload_model demo_converter ''org/model-x'' model_world)))
          (model_folder_path demo_converter ''org/model-x'')"
proof -
  have h1: "list_all (\<lambda>q. \<not> under (model_folder_path demo_converter ''org/model-x'') q)
              (protected model_world)"
    by code_simp
  have h2: "is_dir (fs model_world) (model_folder_path demo_converter ''org/model-x'')"
    by code_simp
  have h3: "fst (upload_model demo_converter ''org/model-x'' model_world) = Inr None"
    by code_simp
  from h1 have h1': "\<forall>q \<in> set (protected model_world).
                       \<not> under (model_folder_path demo_converter ''org/model-x'') q"
    by (simp add: list_all_iff)
  from h2 have h2': "\<not> is_file (fs model_world) (model_folder_path demo_converter ''org/model-x'')"
    by (simp add: is_dir_def is_file_def)
  from upload_model_cleanup [of demo_converter "''org/model-x''" model_world] h1' h2'
  have "\<not> exists_path (fs (snd (upload_model demo_converter ''org/model-x'' model_world)))
          (model_folder_path demo_converter ''org/model-x'')"
    by blast
  with h1 h2 h3 show ?thesis by blast
qed

subsection \<open>The push\<close>

lemma rmtree_trace: "trace (snd (rmtree p b w)) = trace w"
  by (subst rmtree_frame) simp

text \<open>
  Claim C6. \<open>upload_model\<close> returns no error exactly when the relocation succeeds and
  the hub accepts the push; then the push was called exactly once, with the input model
  identifier as repository and "onnx" as path in the repository (and the subfolder as
  folder). In every case the push is called at most once, with these arguments.
\<close>

theorem upload_model_push_once:
  "(fst (upload_model self input_model_id w) = Inr None \<longleftrightarrow>
      (case relocate_onnx_files (model_folder_path self input_model_id)
              (onnx_folder_path self input_model_id) w of
         (Inl e, w1) \<Rightarrow> False
       | (Inr u, w1) \<Rightarrow>
           upload_reply w (token (api self)) (path_str (onnx_folder_path self input_model_id))
             input_model_id ''onnx'' (fs w1) = None))
   \<and> (fst (upload_model self input_model_id w) = Inr None \<longrightarrow>
        trace (snd (upload_model self input_model_id w)) =
          trace w @ [Upload_Folder (token (api self))
                       (path_str (onnx_folder_path self input_model_id))
                       input_model_id ''onnx''])
   \<and> (trace (snd (upload_model self input_model_id w)) = trace w
        \<or> trace (snd (upload_model self input_model_id w)) =
             trace w @ [Upload_Folder (token (api self))
                          (path_str (onnx_folder_path self input_model_id))
                          input_model_id ''onnx''])"
proof -
  define d where "d = model_folder_path self input_model_id"
  define t where "t = onnx_folder_path self input_model_id"
  obtain r1 w1 where r: "relocate_onnx_files d t w = (r1, w1)"
    by (cases "relocate_onnx_files d t w")
  have f: "w1 = w\<lparr>fs := fs w1\<rparr>"
    using relocate_onnx_files_frame [of d t w] r by simp
  have u: "upload_reply w1 = upload_reply w"
    by (subst f) simp
  have tr: "trace w1 = trace w"
    by (subst f) simp
  show ?thesis
    unfolding d_def [symmetric] t_def [symmetric] using r u tr
    by (cases r1;
        cases "upload_reply w (token (api self)) (path_str t) input_model_id ''onnx'' (fs w1)")
       (simp_all add: upload_model_unfold d_def [symmetric] t_def [symmetric] rmtree_trace)
qed

theorem upload_model_push_once_witness:
  "fst (upload_model demo_converter ''org/model-x'' model_world) = Inr None
   \<and> trace (snd (upload_model demo_converter ''org/model-x'' model_world)) =
       [Upload_Folder ''hf_secret'' ''transformers.js/models/org/model-x/onnx''
          ''org/model-x'' ''onnx'']"
proof -
  have h1: "fst (upload_model demo_converter ''org/model-x'' model_world) = Inr None"
    by code_simp
  have h2: "trace model_world = []"
    by code_simp
  have h3: "token (api demo_converter) = ''hf_secret''"
    by code_simp
  have h4: "path_str (onnx_folder_path demo_converter ''org/model-x'')
              = ''transformers.js/models/org/model-x/onnx''"
    by code_simp
  from upload_model_push_once [of demo_converter "''org/model-x''" model_world] h1
  have "trace (snd (upload_model demo_converter ''org/model-x'' model_world)) =
          trace model_world @ [Upload_Folder (token (api demo_converter))
             (path_str (onnx_folder_path demo_converter ''org/model-x''))
             ''org/model-x'' ''onnx'']"
    by blast
  with h1 h2 h3 h4 show ?thesis by simp
qed

subsection \<open>An output directory without ONNX files\<close>


lemma is_file_key: "is_file f q \<Longrightarrow> q \<in> set (map fst f)"
  by (auto simp: is_file_def split: option.splits dest!: map_of_SomeD intro: rev_image_eqI)

lemma mkdir_fails: "mkdir p b w = (Inl e, w') \<Longrightarrow> w' = w"
  by (auto simp: mkdir_def os_mkdir_def raise_def return_def split: if_splits)

lemma keys_update: "fst ` set (AList.update k v al) = insert k (fst ` set al)"
  using dom_update [of k v al] by simp

lemma mkdir_ok:
  assumes "mkdir p True w = (Inr u, w')"
  shows "is_dir (fs w') p \<and> (\<forall>q. q \<noteq> p \<longrightarrow> map_of (fs w') q = map_of (fs w) q)
         \<and> set (map fst (fs w')) \<subseteq> insert p (set (map fst (fs w)))"
proof (cases "exists_path (fs w) p")
  case True
  with assms have "w' = w" and "is_dir (fs w) p"
    by (auto simp: mkdir_def os_mkdir_def raise_def return_def split: if_splits)
  then show ?thesis by auto
next
  case False
  with assms have "fs w' = AList.update p Dir (fs w)"
    by (auto simp: mkdir_def os_mkdir_def raise_def return_def is_dir_def exists_path_def
        split: if_splits)
  then show ?thesis by (simp add: is_dir_def update_conv' keys_update)
qed





subsection \<open>The relocation\<close>

lemma split_on_absent: "c \<notin> set s \<Longrightarrow> split_on c s = [s]"
  by (induction s) auto

lemma joinpath_component:
  assumes "CHR ''/'' \<notin> set n" and "n \<noteq> []" and "n \<noteq> ''.''"
  shows "joinpath p n = Path (is_absolute p) (parts p @ [n])"
proof -
  from assms(1,2) have "take 1 n \<noteq> ''/''" by (cases n) auto
  with assms show ?thesis
    by (simp add: joinpath_def parse_path_def Let_def split_on_absent)
qed

lemma child_of_eq:
  assumes "child_of d q"
  shows "q = Path (is_absolute d) (parts d @ [name q])"
proof (cases q)
  case (Path a ps)
  with assms have "ps \<noteq> []" and "d = Path a (butlast ps)"
    by (auto simp: child_of_def parent_def)
  with Path show ?thesis by (simp add: name_def)
qed

lemma onnx_suffix_name:
  assumes "suffix_path q = ''.onnx''"
  shows "name q \<noteq> [] \<and> name q \<noteq> ''.''"
proof -
  have "suffix_of [] = []" and "suffix_of ''.'' = []" by (simp_all add: suffix_of_def)
  with assms show ?thesis by (auto simp: suffix_path_def)
qed

lemma joinpath_moved_to:
  assumes "suffix_path q = ''.onnx''" and "CHR ''/'' \<notin> set (name q)"
  shows "joinpath (joinpath d ''onnx'') (name q) = moved_to d q"
  using joinpath_component [OF assms(2), of "joinpath d ''onnx''"] onnx_suffix_name [OF assms(1)]
  by (simp add: joinpath_onnx moved_to_def)

lemma moved_to_not_child: "\<not> child_of d (moved_to d q)"
  by (cases d) (simp add: child_of_def moved_to_def parent_def butlast_append)

lemma moved_to_inj:
  assumes "child_of d q" and "child_of d q'" and "moved_to d q = moved_to d q'"
  shows "q = q'"
proof -
  from assms(3) have "name q = name q'" by (simp add: moved_to_def)
  with child_of_eq [OF assms(1)] child_of_eq [OF assms(2)] show ?thesis by simp
qed

lemma os_rename_file_ok:
  assumes "map_of (fs w) src = Some (File c)" and "src \<noteq> d'"
      and "os_rename src d' w = (Inr u, w')"
  shows "map_of (fs w') = (map_of (fs w))(src := None, d' \<mapsto> File c)"
  using assms
  by (auto simp: os_rename_def raise_def return_def update_conv' delete_conv'
      split: if_splits)

lemma os_rename_fails:
  assumes "os_rename src d' w = (Inl e, w')"
  shows "w' = w"
  using assms
  by (auto simp: os_rename_def raise_def return_def split: if_splits option.splits node.splits)

lemma onnx_file_cong:
  "map_of f q = map_of g q \<Longrightarrow> onnx_file f d q = onnx_file g d q"
  by (simp add: onnx_file_def is_file_def)

lemma move_onnx_files_effect:
  assumes "distinct xs"
      and "\<forall>x \<in> set xs. child_of d x \<and> CHR ''/'' \<notin> set (name x)"
  shows "(\<forall>p. \<not> (p \<in> set xs \<and> onnx_file (fs w) d p)
              \<and> (\<forall>q \<in> set xs. onnx_file (fs w) d q \<longrightarrow> p \<noteq> moved_to d q)
            \<longrightarrow> map_of (fs (snd (move_onnx_files (joinpath d ''onnx'') xs w))) p = map_of (fs w) p)
       \<and> (fst (move_onnx_files (joinpath d ''onnx'') xs w) = Inr ()
            \<longrightarrow> (\<forall>q \<in> set xs. onnx_file (fs w) d q
                   \<longrightarrow> map_of (fs (snd (move_onnx_files (joinpath d ''onnx'') xs w))) q = None
                     \<and> map_of (fs (snd (move_onnx_files (joinpath d ''onnx'') xs w))) (moved_to d q)
                         = map_of (fs w) q))"
  using assms
proof (induction xs arbitrary: w)
  case Nil
  show ?case by (simp add: return_def)
next
  case (Cons x xs)
  have dis: "distinct xs" and xn: "x \<notin> set xs" using Cons.prems(1) by simp_all
  have ch: "\<forall>y \<in> set xs. child_of d y \<and> CHR ''/'' \<notin> set (name y)"
    and cx: "child_of d x" and vx: "CHR ''/'' \<notin> set (name x)"
    using Cons.prems(2) by simp_all
  note IH = Cons.IH [OF dis ch]
  show ?case
  proof (cases "onnx_file (fs w) d x")
    case False
    with cx have t: "\<not> (is_file (fs w) x \<and> suffix_path x = ''.onnx'')"
      by (simp add: onnx_file_def)
    then have eq: "move_onnx_files (joinpath d ''onnx'') (x # xs) w
                 = move_onnx_files (joinpath d ''onnx'') xs w" by auto
    show ?thesis unfolding eq using IH [of w] False by auto
  next
    case True
    then have t: "is_file (fs w) x \<and> suffix_path x = ''.onnx''" by (simp add: onnx_file_def)
    then obtain c where c: "map_of (fs w) x = Some (File c)"
      by (auto simp: is_file_def split: option.splits node.splits)
    have jd: "joinpath (joinpath d ''onnx'') (name x) = moved_to d x"
      using t vx by (simp add: joinpath_moved_to)
    have ne: "x \<noteq> moved_to d x" using cx moved_to_not_child [of d x] by auto
    obtain res w1 where r: "os_rename x (moved_to d x) w = (res, w1)"
      by (cases "os_rename x (moved_to d x) w")
    show ?thesis
    proof (cases res)
      case (Inl e)
      with r have "w1 = w" by (auto dest: os_rename_fails)
      with t jd r Inl show ?thesis by (simp add: bind_def)
    next
      case (Inr u)
      with r have m1: "map_of (fs w1) = (map_of (fs w))(x := None, moved_to d x \<mapsto> File c)"
        using os_rename_file_ok [OF c ne] by simp
      have eq: "move_onnx_files (joinpath d ''onnx'') (x # xs) w
                 = move_onnx_files (joinpath d ''onnx'') xs w1"
        using t jd r Inr by (simp add: bind_def)
      have same: "onnx_file (fs w1) d q = onnx_file (fs w) d q" if "q \<in> set xs" for q
      proof -
        from that xn have "q \<noteq> x" by auto
        moreover from that ch moved_to_not_child [of d x] have "q \<noteq> moved_to d x" by auto
        ultimately have "map_of (fs w1) q = map_of (fs w) q" using m1 by simp
        then show ?thesis by (rule onnx_file_cong)
      qed
      have a1: "map_of (fs (snd (move_onnx_files (joinpath d ''onnx'') xs w1))) p = map_of (fs w) p"
        if p1: "\<not> (p \<in> set (x # xs) \<and> onnx_file (fs w) d p)"
          and p2: "\<forall>q \<in> set (x # xs). onnx_file (fs w) d q \<longrightarrow> p \<noteq> moved_to d q" for p
      proof -
        from p1 True have px: "p \<noteq> x" by auto
        from p2 True have pd: "p \<noteq> moved_to d x" by auto
        from p1 same have "\<not> (p \<in> set xs \<and> onnx_file (fs w1) d p)" by auto
        moreover from p2 same have "\<forall>q \<in> set xs. onnx_file (fs w1) d q \<longrightarrow> p \<noteq> moved_to d q" by auto
        ultimately have "map_of (fs (snd (move_onnx_files (joinpath d ''onnx'') xs w1))) p
                       = map_of (fs w1) p" using IH [of w1] by blast
        with m1 px pd show ?thesis by simp
      qed
      have a2: "map_of (fs (snd (move_onnx_files (joinpath d ''onnx'') xs w1))) q = None
              \<and> map_of (fs (snd (move_onnx_files (joinpath d ''onnx'') xs w1))) (moved_to d q)
                  = map_of (fs w) q"
        if ok: "fst (move_onnx_files (joinpath d ''onnx'') xs w1) = Inr ()"
          and q: "q \<in> set (x # xs)" and e: "onnx_file (fs w) d q" for q
      proof (cases "q = x")
        case False
        with q have qs: "q \<in> set xs" by simp
        with same e have "onnx_file (fs w1) d q" by simp
        with IH [of w1] ok qs
        have "map_of (fs (snd (move_onnx_files (joinpath d ''onnx'') xs w1))) q = None
            \<and> map_of (fs (snd (move_onnx_files (joinpath d ''onnx'') xs w1))) (moved_to d q)
                = map_of (fs w1) q" by blast
        moreover from qs ch moved_to_not_child [of d x] False have "map_of (fs w1) q = map_of (fs w) q"
          using m1 by auto
        ultimately show ?thesis by simp
      next
        case q_x: True
        have nd: "\<forall>y \<in> set xs. x \<noteq> moved_to d y" using cx moved_to_not_child [of d] by auto
        have "\<not> (x \<in> set xs \<and> onnx_file (fs w1) d x)" using xn by simp
        moreover have "\<forall>y \<in> set xs. onnx_file (fs w1) d y \<longrightarrow> x \<noteq> moved_to d y" using nd by simp
        ultimately have x1: "map_of (fs (snd (move_onnx_files (joinpath d ''onnx'') xs w1))) x
                           = map_of (fs w1) x" using IH [of w1] by blast
        have "moved_to d x \<notin> set xs" using ch moved_to_not_child [of d x] by auto
        then have "\<not> (moved_to d x \<in> set xs \<and> onnx_file (fs w1) d (moved_to d x))" by simp
        moreover have "\<forall>y \<in> set xs. onnx_file (fs w1) d y \<longrightarrow> moved_to d x \<noteq> moved_to d y"
          using ch cx xn moved_to_inj [of d x] by metis
        ultimately have x2: "map_of (fs (snd (move_onnx_files (joinpath d ''onnx'') xs w1))) (moved_to d x)
                           = map_of (fs w1) (moved_to d x)" using IH [of w1] by blast
        from x1 x2 m1 ne c q_x show ?thesis by simp
      qed
      show ?thesis unfolding eq using a1 a2 by blast
    qed
  qed
qed

lemma name_onnx: "name (joinpath d ''onnx'') = ''onnx''"
  by (simp add: joinpath_onnx name_def)

lemma onnx_dir_not_onnx_file: "\<not> onnx_file f d (joinpath d ''onnx'')"
  by (simp add: onnx_file_def suffix_path_def name_onnx suffix_of_def)

lemma onnx_dir_not_moved_to: "joinpath d ''onnx'' \<noteq> moved_to d q"
  by (simp add: joinpath_onnx moved_to_def)

lemma relocate_effect:
  assumes valid: "\<forall>q \<in> set (map fst (fs w)). CHR ''/'' \<notin> set (name q)"
  shows "(\<forall>p. p \<noteq> joinpath d ''onnx'' \<and> \<not> onnx_file (fs w) d p
             \<and> (\<forall>q. onnx_file (fs w) d q \<longrightarrow> p \<noteq> joinpath (joinpath d ''onnx'') (name q))
           \<longrightarrow> map_of (fs (snd (relocate_onnx_files d (joinpath d ''onnx'') w))) p
                 = map_of (fs w) p)
       \<and> (fst (relocate_onnx_files d (joinpath d ''onnx'') w) = Inr ()
           \<longrightarrow> is_dir (fs (snd (relocate_onnx_files d (joinpath d ''onnx'') w)))
                  (joinpath d ''onnx'')
             \<and> (\<forall>q. onnx_file (fs w) d q
                  \<longrightarrow> map_of (fs (snd (relocate_onnx_files d (joinpath d ''onnx'') w))) q = None
                    \<and> map_of (fs (snd (relocate_onnx_files d (joinpath d ''onnx'') w)))
                        (joinpath (joinpath d ''onnx'') (name q)) = map_of (fs w) q))"
proof -
  define target where "target = joinpath d ''onnx''"
  obtain r1 w1 where m: "mkdir target True w = (r1, w1)" by (cases "mkdir target True w")
  show ?thesis
  proof (cases r1)
    case (Inl e)
    with m have "w1 = w" by (auto dest: mkdir_fails)
    with m Inl show ?thesis
      by (simp add: relocate_onnx_files_def bind_def target_def [symmetric])
  next
    case (Inr u)
    from mkdir_ok [of target w u w1] m Inr
    have od: "is_dir (fs w1) target"
      and same: "\<And>q. q \<noteq> target \<Longrightarrow> map_of (fs w1) q = map_of (fs w) q"
      and keys: "set (map fst (fs w1)) \<subseteq> insert target (set (map fst (fs w)))"
      by blast+
    show ?thesis
    proof (cases "is_dir (fs w1) d")
      case False
      then have "relocate_onnx_files d target w = (Inl (if exists_path (fs w1) d
                     then Exn ''NotADirectoryError'' (path_str d)
                     else Exn ''FileNotFoundError'' (path_str d)), w1)"
        using m Inr by (simp add: relocate_onnx_files_def bind_def iterdir_def raise_def)
      then show ?thesis using same by (simp add: target_def [symmetric])
    next
      case True
      define xs where "xs = remdups (filter (child_of d) (map fst (fs w1)))"
      have rel: "relocate_onnx_files d target w = move_onnx_files target xs w1"
        using m Inr True by (simp add: relocate_onnx_files_def bind_def iterdir_def return_def xs_def)
      have dx: "distinct xs" by (simp add: xs_def)
      have vx: "\<forall>x \<in> set xs. child_of d x \<and> CHR ''/'' \<notin> set (name x)"
      proof
        fix x assume x: "x \<in> set xs"
        then have c: "child_of d x" and k: "x \<in> set (map fst (fs w1))" by (simp_all add: xs_def)
        have "CHR ''/'' \<notin> set (name x)"
        proof (cases "x = target")
          case True
          then show ?thesis by (simp add: target_def name_onnx)
        next
          case False
          with k keys have "x \<in> set (map fst (fs w))" by auto
          with valid show ?thesis by blast
        qed
        with c show "child_of d x \<and> CHR ''/'' \<notin> set (name x)" by simp
      qed
      have el: "onnx_file (fs w1) d q = onnx_file (fs w) d q" for q
      proof (cases "q = target")
        case True
        then show ?thesis by (simp add: target_def onnx_dir_not_onnx_file)
      next
        case False
        from same [OF this] show ?thesis by (rule onnx_file_cong)
      qed
      have mem: "q \<in> set xs" if "onnx_file (fs w) d q" for q
      proof -
        from that el have "onnx_file (fs w1) d q" by simp
        then have "child_of d q" and "is_file (fs w1) q" by (simp_all add: onnx_file_def)
        with is_file_key [of "fs w1" q] show ?thesis by (simp add: xs_def)
      qed
      have jd: "joinpath target (name q) = moved_to d q" if "onnx_file (fs w) d q" for q
      proof -
        from that have "suffix_path q = ''.onnx''" by (simp add: onnx_file_def)
        moreover from mem [OF that] vx have "CHR ''/'' \<notin> set (name q)" by blast
        ultimately show ?thesis unfolding target_def by (rule joinpath_moved_to)
      qed
      note eff = move_onnx_files_effect [OF dx vx, of w1, folded target_def]
      have i: "map_of (fs (snd (move_onnx_files target xs w1))) p = map_of (fs w) p"
        if p1: "p \<noteq> target" and p2: "\<not> onnx_file (fs w) d p"
          and p3: "\<forall>q. onnx_file (fs w) d q \<longrightarrow> p \<noteq> joinpath target (name q)" for p
      proof -
        have "\<not> (p \<in> set xs \<and> onnx_file (fs w1) d p)" using p2 el by simp
        moreover have "\<forall>q \<in> set xs. onnx_file (fs w1) d q \<longrightarrow> p \<noteq> moved_to d q"
          using p3 el jd by metis
        ultimately have "map_of (fs (snd (move_onnx_files target xs w1))) p = map_of (fs w1) p"
          using eff by blast
        with same [OF p1] show ?thesis by simp
      qed
      have ii: "is_dir (fs (snd (move_onnx_files target xs w1))) target"
      proof -
        have "\<not> (target \<in> set xs \<and> onnx_file (fs w1) d target)"
          by (simp add: target_def onnx_dir_not_onnx_file)
        moreover have "\<forall>q \<in> set xs. onnx_file (fs w1) d q \<longrightarrow> target \<noteq> moved_to d q"
          by (simp add: target_def onnx_dir_not_moved_to)
        ultimately have "map_of (fs (snd (move_onnx_files target xs w1))) target
                       = map_of (fs w1) target" using eff by blast
        with od show ?thesis by (simp add: is_dir_def)
      qed
      have iii: "map_of (fs (snd (move_onnx_files target xs w1))) q = None
               \<and> map_of (fs (snd (move_onnx_files target xs w1))) (joinpath target (name q))
                   = map_of (fs w) q"
        if ok: "fst (move_onnx_files target xs w1) = Inr ()" and e: "onnx_file (fs w) d q" for q
      proof -
        from e el have e1: "onnx_file (fs w1) d q" by simp
        from e have "q \<noteq> target" using onnx_dir_not_onnx_file [of "fs w" d] by (auto simp: target_def)
        from same [OF this] have s: "map_of (fs w1) q = map_of (fs w) q" .
        from eff ok mem [OF e] e1
        have "map_of (fs (snd (move_onnx_files target xs w1))) q = None
            \<and> map_of (fs (snd (move_onnx_files target xs w1))) (moved_to d q) = map_of (fs w1) q"
          by blast
        with s jd [OF e] show ?thesis by simp
      qed
      show ?thesis unfolding target_def [symmetric] rel using i ii iii by blast
    qed
  qed
qed

lemma onnx_file_key: "onnx_file f d q \<Longrightarrow> q \<in> set (map fst f)"
  by (simp only: onnx_file_def is_file_key)

text \<open>
  Claim C3, as stated: in every state of the output directory the top-level regular files
  with the target extension are relocated into the subfolder. In
  \<open>blocked_model_world\<close> the output directory holds \<^verbatim>\<open>model.onnx\<close> and a regular
  file named \<^verbatim>\<open>onnx\<close>: the subfolder cannot be created, \<^verbatim>\<open>model.onnx\<close> stays
  where it is, nothing arrives in the subfolder, and \<open>upload_model\<close> returns the error.
\<close>

theorem upload_model_relocation_counterexample:
  "onnx_file (fs blocked_model_world) (model_folder_path demo_converter ''org/model-x'')
     (Path False (parts model_dir @ [''model.onnx'']))
   \<and> map_sum exn_class (\<lambda>u. u)
         (fst (relocate_onnx_files (model_folder_path demo_converter ''org/model-x'')
                 (onnx_folder_path demo_converter ''org/model-x'') blocked_model_world))
       = Inl ''FileExistsError''
   \<and> is_file
        (fs (snd (relocate_onnx_files (model_folder_path demo_converter ''org/model-x'')
                    (onnx_folder_path demo_converter ''org/model-x'') blocked_model_world)))
        (Path False (parts model_dir @ [''model.onnx'']))
   \<and> \<not> exists_path
          (fs (snd (relocate_onnx_files (model_folder_path demo_converter ''org/model-x'')
                      (onnx_folder_path demo_converter ''org/model-x'') blocked_model_world)))
          (joinpath (onnx_folder_path demo_converter ''org/model-x'') ''model.onnx'')
   \<and> fst (upload_model demo_converter ''org/model-x'' blocked_model_world) \<noteq> Inr None"
  by code_simp

text \<open>
  Claim C3, amended. Let the names of the file system hold no slash. In every state, the
  statements of \<open>upload_model\<close> before the push change no entry other than the
  subfolder, the top-level regular files with the target extension and the places in the
  subfolder they are moved to: files without the extension and entries nested in
  subdirectories stay as they are. When the creation of the subfolder and every move
  succeed, the subfolder is a directory and every top-level regular file with the target
  extension is gone from the top level and found in the subfolder under its name. The
  push of \<open>upload_model\<close> is made on that state.
\<close>

theorem upload_model_relocation:
  assumes "\<forall>q \<in> set (map fst (fs w)). CHR ''/'' \<notin> set (name q)"
  shows "(\<forall>p. p \<noteq> onnx_folder_path self input_model_id
             \<and> \<not> onnx_file (fs w) (model_folder_path self input_model_id) p
             \<and> (\<forall>q. onnx_file (fs w) (model_folder_path self input_model_id) q
                   \<longrightarrow> p \<noteq> joinpath (onnx_folder_path self input_model_id) (name q))
           \<longrightarrow> map_of (fs (snd (relocate_onnx_files (model_folder_path self input_model_id)
                                   (onnx_folder_path self input_model_id) w))) p
                 = map_of (fs w) p)
       \<and> (fst (relocate_onnx_files (model_folder_path self input_model_id)
                  (onnx_folder_path self input_model_id) w) = Inr ()
           \<longrightarrow> is_dir (fs (snd (relocate_onnx_files (model_folder_path self input_model_id)
                                   (onnx_folder_path self input_model_id) w)))
                  (onnx_folder_path self input_model_id)
             \<and> (\<forall>q. onnx_file (fs w) (model_folder_path self input_model_id) q
                  \<longrightarrow> map_of (fs (snd (relocate_onnx_files
                                          (model_folder_path self input_model_id)
                                          (onnx_folder_path self input_model_id) w))) q = None
                    \<and> map_of (fs (snd (relocate_onnx_files
                                          (model_folder_path self input_model_id)
                                          (onnx_folder_path self input_model_id) w)))
                        (joinpath (onnx_folder_path self input_model_id) (name q))
                      = map_of (fs w) q))
       \<and> fst (upload_model self input_model_id w) =
           Inr (case fst (relocate_onnx_files (model_folder_path self input_model_id)
                            (onnx_folder_path self input_model_id) w) of
                  Inl e \<Rightarrow> Some (str e)
                | Inr u \<Rightarrow>
                    map_option str
                      (upload_reply w (token (api self))
                         (path_str (onnx_folder_path self input_model_id))
                         input_model_id ''onnx''
                         (fs (snd (relocate_onnx_files (model_folder_path self input_model_id)
                                     (onnx_folder_path self input_model_id) w)))))"
proof -
  define d where "d = model_folder_path self input_model_id"
  have t: "onnx_folder_path self input_model_id = joinpath d ''onnx''"
    by (simp add: onnx_folder_path_def d_def)
  obtain r1 w1 where r: "relocate_onnx_files d (joinpath d ''onnx'') w = (r1, w1)"
    by (cases "relocate_onnx_files d (joinpath d ''onnx'') w")
  have f: "w1 = w\<lparr>fs := fs w1\<rparr>"
    using relocate_onnx_files_frame [of d "joinpath d ''onnx''" w] r by simp
  have u: "upload_reply w1 = upload_reply w"
    by (subst f) simp
  have push: "fst (upload_model self input_model_id w) =
           Inr (case fst (relocate_onnx_files d (joinpath d ''onnx'') w) of
                  Inl e \<Rightarrow> Some (str e)
                | Inr u \<Rightarrow>
                    map_option str
                      (upload_reply w (token (api self)) (path_str (joinpath d ''onnx''))
                         input_model_id ''onnx''
                         (fs (snd (relocate_onnx_files d (joinpath d ''onnx'') w)))))"
    using r u
    by (cases r1;
        cases "upload_reply w (token (api self)) (path_str (joinpath d ''onnx''))
                 input_model_id ''onnx'' (fs w1)")
       (simp_all add: upload_model_unfold d_def [symmetric] t)
  from relocate_effect [OF assms, of d] push
  show ?thesis unfolding d_def [symmetric] t by blast
qed

theorem upload_model_relocation_witness:
  "list_all (\<lambda>q. CHR ''/'' \<notin> set (name q)) (map fst (fs model_world))
   \<and> onnx_file (fs model_world) (model_folder_path demo_converter ''org/model-x'')
       (Path False (parts model_dir @ [''model.onnx'']))
   \<and> fst (relocate_onnx_files (model_folder_path demo_converter ''org/model-x'')
            (onnx_folder_path demo_converter ''org/model-x'') model_world) = Inr ()
   \<and> map_of (fs (snd (relocate_onnx_files (model_folder_path demo_converter ''org/model-x'')
                        (onnx_folder_path demo_converter ''org/model-x'') model_world)))
       (Path False (parts model_dir @ [''model.onnx''])) = None
   \<and> map_of (fs (snd (relocate_onnx_files (model_folder_path demo_converter ''org/model-x'')
                        (onnx_folder_path demo_converter ''org/model-x'') model_world)))
       (Path False (parts model_dir @ [''onnx'', ''model.onnx''])) = Some (File ''m'')
   \<and> map_of (fs (snd (relocate_onnx_files (model_folder_path demo_converter ''org/model-x'')
                        (onnx_folder_path demo_converter ''org/model-x'') model_world)))
       (Path False (parts model_dir @ [''sub'', ''nested.onnx''])) = Some (File ''n'')"
proof -
  define d where "d = model_folder_path demo_converter ''org/model-x''"
  define t where "t = onnx_folder_path demo_converter ''org/model-x''"
  define q where "q = Path False (parts model_dir @ [''model.onnx''])"
  define n where "n = Path False (parts model_dir @ [''sub'', ''nested.onnx''])"
  have h1: "list_all (\<lambda>q. CHR ''/'' \<notin> set (name q)) (map fst (fs model_world))"
    by code_simp
  have h2: "onnx_file (fs model_world) d q"
    unfolding d_def q_def by code_simp
  have h3: "fst (relocate_onnx_files d t model_world) = Inr ()"
    unfolding d_def t_def by code_simp
  have h4: "joinpath t (name q) = Path False (parts model_dir @ [''onnx'', ''model.onnx''])"
    unfolding t_def q_def by code_simp
  have h5: "map_of (fs model_world) q = Some (File ''m'')"
    unfolding q_def by code_simp
  have h6: "map_of (fs model_world) n = Some (File ''n'')"
    unfolding n_def by code_simp
  have h7: "n \<noteq> t \<and> \<not> onnx_file (fs model_world) d n"
    unfolding n_def t_def d_def by code_simp
  have h8: "list_all (\<lambda>q. onnx_file (fs model_world) d q \<longrightarrow> n \<noteq> joinpath t (name q))
              (map fst (fs model_world))"
    unfolding n_def t_def d_def by code_simp
  have h8': "\<forall>q. onnx_file (fs model_world) d q \<longrightarrow> n \<noteq> joinpath t (name q)"
  proof (intro allI impI)
    fix q
    assume a: "onnx_file (fs model_world) d q"
    from h8 have "\<forall>q \<in> set (map fst (fs model_world)).
                    onnx_file (fs model_world) d q \<longrightarrow> n \<noteq> joinpath t (name q)"
      by (simp only: list_all_iff)
    with onnx_file_key [OF a] a show "n \<noteq> joinpath t (name q)"
      by blast
  qed
  from h1 have h1': "\<forall>q \<in> set (map fst (fs model_world)). CHR ''/'' \<notin> set (name q)"
    by (simp only: list_all_iff)
  note T = upload_model_relocation [OF h1', of demo_converter "''org/model-x''",
             folded d_def t_def]
  from T h3 h2 have "map_of (fs (snd (relocate_onnx_files d t model_world))) q = None
       \<and> map_of (fs (snd (relocate_onnx_files d t model_world))) (joinpath t (name q))
           = map_of (fs model_world) q"
    by blast
  moreover from T h7 h8' have "map_of (fs (snd (relocate_onnx_files d t model_world))) n
       = map_of (fs model_world) n"
    by blast
  ultimately show ?thesis
    using h1 h2 h3 h4 h5 h6 unfolding d_def t_def q_def n_def by simp
qed

end
